theory Spec2Isabelle
  imports Main "HOL-Library.AList"
begin

section \<open>Python values and dictionaries\<close>

text \<open>
  The values that end up in the descriptors of \<^verbatim>\<open>tornado_swagger/swagger.py\<close>:
  \<^verbatim>\<open>None\<close>, booleans, integers, strings, plain dictionaries with string keys, and
  references to function objects (by address, so that two references are the same object
  exactly when the addresses are equal).
\<close>

type_synonym addr = nat

datatype pyval =
    PyNone
  | PyBool bool
  | PyInt int
  | PyStr string
  | PyDict "(string \<times> pyval) list"
  | PyRef addr

datatype pyerror = IndexError | ValueError | TypeError | AttributeError

text \<open>Python truthiness, as used by \<^verbatim>\<open>if x:\<close>. Function objects are truthy.\<close>

fun truthy :: "pyval \<Rightarrow> bool" where
  "truthy PyNone = False"
| "truthy (PyBool b) = b"
| "truthy (PyInt i) = (i \<noteq> 0)"
| "truthy (PyStr s) = (s \<noteq> [])"
| "truthy (PyDict d) = (d \<noteq> [])"
| "truthy (PyRef a) = True"

text \<open>A value that is \<^verbatim>\<open>None\<close> or a string.\<close>

fun of_opt :: "string option \<Rightarrow> pyval" where
  "of_opt None = PyNone"
| "of_opt (Some s) = PyStr s"

text \<open>
  A dictionary is an association list in insertion order (\<^verbatim>\<open>OrderedDict\<close>); a key occurs
  at most once. \<^verbatim>\<open>d[k] = v\<close> replaces the value in place or appends the new key, which is
  \<^const>\<open>AList.update\<close>; \<^verbatim>\<open>d.get(k)\<close> is \<^const>\<open>map_of\<close>.
\<close>

type_synonym ('k, 'v) dict = "('k \<times> 'v) list"

definition dict_set :: "('k, 'v) dict \<Rightarrow> 'k \<Rightarrow> 'v \<Rightarrow> ('k, 'v) dict" where
  "dict_set d k v = AList.update k v d"

definition dict_has :: "('k, 'v) dict \<Rightarrow> 'k \<Rightarrow> bool" where
  "dict_has d k = (map_of d k \<noteq> None)"

text \<open>\<^verbatim>\<open>d.setdefault(k, v)\<close>: the value now stored under \<open>k\<close>, and the dictionary.\<close>

definition dict_setdefault :: "('k, 'v) dict \<Rightarrow> 'k \<Rightarrow> 'v \<Rightarrow> 'v \<times> ('k, 'v) dict" where
  "dict_setdefault d k v =
     (case map_of d k of Some e \<Rightarrow> (e, d) | None \<Rightarrow> (v, d @ [(k, v)]))"

text \<open>\<^verbatim>\<open>d.update({k1: v1, ...})\<close>.\<close>

definition dict_update :: "('k, 'v) dict \<Rightarrow> ('k \<times> 'v) list \<Rightarrow> ('k, 'v) dict" where
  "dict_update d kvs = fold (\<lambda>(k, v) d'. dict_set d' k v) kvs d"

text \<open>
  \<^verbatim>\<open>d.setdefault(k, {}).update(kvs)\<close>: the entry under \<open>k\<close> is created empty when missing
  and then updated in place, so the change is visible through \<open>d\<close>.
\<close>

definition dict_upsert ::
  "('k, (string, pyval) dict) dict \<Rightarrow> 'k \<Rightarrow> (string \<times> pyval) list \<Rightarrow> ('k, (string, pyval) dict) dict"
where
  "dict_upsert d k kvs =
     (let (e, d') = dict_setdefault d k [] in dict_set d' k (dict_update e kvs))"

text \<open>Reading \<^verbatim>\<open>d[k][f]\<close> when both keys are present.\<close>

definition dict_get2 :: "('k, (string, pyval) dict) dict \<Rightarrow> 'k \<Rightarrow> string \<Rightarrow> pyval option" where
  "dict_get2 d k f = (case map_of d k of None \<Rightarrow> None | Some e \<Rightarrow> map_of e f)"

section \<open>Strings\<close>

text \<open>\<^verbatim>\<open>str.strip()\<close> removes the ASCII whitespace at both ends.\<close>

definition is_space :: "char \<Rightarrow> bool" where
  "is_space c = (c \<in> set [CHR '' '', CHR 0x09, CHR 0x0A, CHR 0x0B, CHR 0x0C, CHR 0x0D])"

definition strip :: "string \<Rightarrow> string" where
  "strip s = rev (dropWhile is_space (rev (dropWhile is_space s)))"

text \<open>\<^verbatim>\<open>s.replace('\n', ' ')\<close>.\<close>

definition replace_newlines :: "string \<Rightarrow> string" where
  "replace_newlines s = map (\<lambda>c. if c = CHR 0x0A then CHR '' '' else c) s"

section \<open>The markup of a field body\<close>

text \<open>
  A field body is an epydoc markup node. The code reads it in two ways:
  \<^verbatim>\<open>body.to_plaintext(None)\<close>, a string, and \<^verbatim>\<open>str(body)\<close>, which is fed to an
  \<^verbatim>\<open>HTMLParser\<close>. The tokenizer of \<^verbatim>\<open>HTMLParser\<close> is library code; what the class
  \<^verbatim>\<open>EpytextParser\<close> of the source sees of it is the sequence of calls of its three
  handlers, so a node carries that sequence.
\<close>

datatype html_event = StartTag string | EndTag string | Data string

record markup =
  to_plaintext :: string
  html_events :: "html_event list"

subsection \<open>\<^verbatim>\<open>EpytextParser\<close>\<close>

record epytext_parser =
  ep_tag :: string
  a_text :: bool
  ep_data :: "string option"

definition EpytextParser :: "string \<Rightarrow> epytext_parser" where
  "EpytextParser t = \<lparr>ep_tag = t, a_text = False, ep_data = None\<rparr>"

definition handle_starttag :: "epytext_parser \<Rightarrow> string \<Rightarrow> epytext_parser" where
  "handle_starttag p t = (if t = ep_tag p then p\<lparr>a_text := True\<rparr> else p)"

definition handle_endtag :: "epytext_parser \<Rightarrow> string \<Rightarrow> epytext_parser" where
  "handle_endtag p t = (if t = ep_tag p then p\<lparr>a_text := False\<rparr> else p)"

definition handle_data :: "epytext_parser \<Rightarrow> string \<Rightarrow> epytext_parser" where
  "handle_data p d = (if a_text p then p\<lparr>ep_data := Some d\<rparr> else p)"

fun handle_event :: "epytext_parser \<Rightarrow> html_event \<Rightarrow> epytext_parser" where
  "handle_event p (StartTag t) = handle_starttag p t"
| "handle_event p (EndTag t) = handle_endtag p t"
| "handle_event p (Data d) = handle_data p d"

definition feed :: "epytext_parser \<Rightarrow> html_event list \<Rightarrow> epytext_parser" where
  "feed p evs = foldl handle_event p evs"

definition get_data :: "epytext_parser \<Rightarrow> string option" where
  "get_data p = ep_data p"

section \<open>\<^verbatim>\<open>DocParser\<close>\<close>

text \<open>
  The handlers mutate the parser object; here each takes the object and returns it updated.
  In \<open>parse_param\<close> the entry \<^verbatim>\<open>self.params[arg]\<close> exists after the \<^verbatim>\<open>setdefault\<close>
  (lemma \<open>dict_upsert_same\<close> below), so the lookup cannot raise \<^verbatim>\<open>KeyError\<close>.
\<close>

record field =
  tag :: string
  arg :: "string option"
  body :: "markup option"

text \<open>
  The text of a docstring, given by the fields that \<^verbatim>\<open>epydoc.markup.parse\<close> and
  \<^verbatim>\<open>split_fields\<close> find in it, in document order.
\<close>

datatype docstring = Docstring (split_fields: "field list")

record docparser =
  "notes" :: "string option"
  summary :: "string option"
  responseClasses :: "(string option, string option) dict"
  responseMessages :: "(string, pyval) dict list"
  params :: "(string option, (string, pyval) dict) dict"
  properties :: "(string option, (string, pyval) dict) dict"

definition DocParser :: docparser where
  "DocParser = \<lparr>notes = None, summary = None, responseClasses = [], responseMessages = [],
                 params = [], properties = []\<rparr>"

definition get_body :: "markup option \<Rightarrow> string option" where
  "get_body b = (case b of None \<Rightarrow> None | Some m \<Rightarrow> Some (strip (to_plaintext m)))"

definition parse_epytext_para :: "string \<Rightarrow> markup option \<Rightarrow> string option" where
  "parse_epytext_para t b =
     (case b of None \<Rightarrow> None
      | Some m \<Rightarrow> get_data (feed (EpytextParser t) (html_events m)))"

definition sanitize_doc :: "string option \<Rightarrow> string option" where
  "sanitize_doc comment =
     (case comment of None \<Rightarrow> None
      | Some c \<Rightarrow> if c \<noteq> [] then Some (replace_newlines c) else Some c)"

definition parse_param ::
  "'a docparser_scheme \<Rightarrow> string option \<Rightarrow> markup option \<Rightarrow> 'a docparser_scheme" where
  "parse_param s a b =
     (let ps = dict_upsert (params s) a
                 [(''name'', of_opt a), (''description'', of_opt (get_body b))]
      in case map_of ps a of
           None \<Rightarrow> s\<lparr>params := ps\<rparr>
         | Some e \<Rightarrow>
             if \<not> dict_has e ''paramType''
             then s\<lparr>params := dict_set ps a (dict_set e ''paramType'' (PyStr ''query''))\<rparr>
             else s\<lparr>params := ps\<rparr>)"

definition parse_type ::
  "'a docparser_scheme \<Rightarrow> string option \<Rightarrow> markup option \<Rightarrow> 'a docparser_scheme" where
  "parse_type s a b =
     s\<lparr>params := dict_upsert (params s) a
                    [(''name'', of_opt a), (''dataType'', of_opt (get_body b))]\<rparr>"

definition parse_in ::
  "'a docparser_scheme \<Rightarrow> string option \<Rightarrow> markup option \<Rightarrow> 'a docparser_scheme" where
  "parse_in s a b =
     s\<lparr>params := dict_upsert (params s) a
                    [(''name'', of_opt a), (''paramType'', of_opt (get_body b))]\<rparr>"

definition parse_required ::
  "'a docparser_scheme \<Rightarrow> string option \<Rightarrow> markup option \<Rightarrow> 'a docparser_scheme" where
  "parse_required s a b =
     s\<lparr>params := dict_upsert (params s) a
         [(''name'', of_opt a),
          (''required'',
             PyBool (if get_body b \<in> set [Some ''False'', Some ''false''] then False else True))]\<rparr>"

definition parse_rtype ::
  "'a docparser_scheme \<Rightarrow> string option \<Rightarrow> markup option \<Rightarrow> 'a docparser_scheme" where
  "parse_rtype s a b =
     (if truthy (of_opt a)
      then s\<lparr>responseClasses := dict_set (responseClasses s) a (get_body b)\<rparr>
      else s)"

definition parse_property ::
  "'a docparser_scheme \<Rightarrow> string option \<Rightarrow> markup option \<Rightarrow> 'a docparser_scheme" where
  "parse_property s a b =
     s\<lparr>properties := dict_upsert (properties s) a [(''description'', of_opt (get_body b))]\<rparr>"

definition parse_ptype ::
  "'a docparser_scheme \<Rightarrow> string option \<Rightarrow> markup option \<Rightarrow> 'a docparser_scheme" where
  "parse_ptype s a b =
     (let code = parse_epytext_para ''code'' b;
          link = parse_epytext_para ''link'' b
      in if code = None
         then s\<lparr>properties := dict_upsert (properties s) a [(''type'', of_opt (get_body b))]\<rparr>
         else if code = Some ''list''
         then s\<lparr>properties := dict_upsert (properties s) a
                  [(''type'', PyStr ''array''), (''items'', PyDict [(''type'', of_opt link)])]\<rparr>
         else s)"

definition parse_return ::
  "'a docparser_scheme \<Rightarrow> string option \<Rightarrow> markup option \<Rightarrow> 'a docparser_scheme" where
  "parse_return s a b =
     (let response_message = [(''code'', of_opt a), (''message'', of_opt (get_body b))];
          response_class = (case map_of (responseClasses s) a of None \<Rightarrow> None | Some c \<Rightarrow> c)
      in s\<lparr>responseMessages := responseMessages s @
             [if truthy (of_opt response_class)
              then dict_set response_message ''responseModel'' (of_opt response_class)
              else response_message]\<rparr>)"

definition parse_notes ::
  "'a docparser_scheme \<Rightarrow> string option \<Rightarrow> markup option \<Rightarrow> 'a docparser_scheme" where
  "parse_notes s a b = s\<lparr>notes := sanitize_doc (get_body b)\<rparr>"

definition parse_description ::
  "'a docparser_scheme \<Rightarrow> string option \<Rightarrow> markup option \<Rightarrow> 'a docparser_scheme" where
  "parse_description s a b = s\<lparr>summary := sanitize_doc (get_body b)\<rparr>"

definition not_supported ::
  "'a docparser_scheme \<Rightarrow> string option \<Rightarrow> markup option \<Rightarrow> 'a docparser_scheme" where
  "not_supported s a b = s"

definition get_parser ::
  "string \<Rightarrow> 'a docparser_scheme \<Rightarrow> string option \<Rightarrow> markup option \<Rightarrow> 'a docparser_scheme"
where
  "get_parser t =
     (if t = ''param'' then parse_param
      else if t = ''type'' then parse_type
      else if t = ''in'' then parse_in
      else if t = ''required'' then parse_required
      else if t = ''rtype'' then parse_rtype
      else if t = ''property'' then parse_property
      else if t = ''ptype'' then parse_ptype
      else if t = ''return'' then parse_return
      else if t = ''raise'' then parse_return
      else if t = ''notes'' then parse_notes
      else if t = ''description'' then parse_description
      else not_supported)"

text \<open>One iteration of the loop of \<^verbatim>\<open>parse_docstring\<close>.\<close>

definition dispatch :: "'a docparser_scheme \<Rightarrow> field \<Rightarrow> 'a docparser_scheme" where
  "dispatch s f = get_parser (tag f) s (arg f) (body f)"

definition parse_fields :: "'a docparser_scheme \<Rightarrow> field list \<Rightarrow> 'a docparser_scheme" where
  "parse_fields s fs = foldl dispatch s fs"

definition parse_docstring :: "'a docparser_scheme \<Rightarrow> docstring option \<Rightarrow> 'a docparser_scheme" where
  "parse_docstring s text =
     (case text of None \<Rightarrow> s | Some t \<Rightarrow> parse_fields s (split_fields t))"

section \<open>Signatures\<close>

text \<open>
  What the code reads of the result of \<^verbatim>\<open>inspect.getargspec\<close>: the positional parameter
  names and the tuple of default values (\<^verbatim>\<open>None\<close> when no parameter has a default).
\<close>

record argspec =
  args :: "string list"
  defaults :: "pyval list option"

section \<open>The \<^verbatim>\<open>model\<close> decorator\<close>

text \<open>
  A class, as the decorator sees it: \<^verbatim>\<open>cls.__name__\<close>; whether \<^verbatim>\<open>'__init__'\<close> is in
  \<^verbatim>\<open>dir(cls)\<close> and, if so, what \<^verbatim>\<open>inspect.getargspec(cls.__init__)\<close> returns or raises;
  and \<^verbatim>\<open>inspect.getdoc(cls)\<close>. A class object is truthy.
\<close>

record pyclass =
  cls_name :: string
  cls_init :: "(pyerror + argspec) option"
  cls_doc :: "docstring option"

record model = docparser +
  model_args :: "pyval list"
  model_kwargs :: "(string \<times> pyval) list"
  required :: "string list"
  cls :: "pyclass option"
  model_id :: "string option"

definition model_init :: "pyval list \<Rightarrow> (string \<times> pyval) list \<Rightarrow> model" where
  "model_init a kw =
     \<lparr>notes = None, summary = None, responseClasses = [], responseMessages = [],
      params = [], properties = [],
      model_args = a, model_kwargs = kw, required = [], cls = None, model_id = None\<rparr>"

text \<open>
  \<^verbatim>\<open>model._parse_args\<close>. \<^verbatim>\<open>argspec.args.remove("self")\<close> raises \<^verbatim>\<open>ValueError\<close> when
  no parameter is called \<^verbatim>\<open>self\<close>; the slice \<^verbatim>\<open>args[-n:]\<close> with \<open>n\<close> at least 1 is
  the last \<open>n\<close> names, all of them when there are fewer.
\<close>

definition model_parse_args :: "model \<Rightarrow> pyerror + argspec \<Rightarrow> pyerror + model" where
  "model_parse_args self r =
     (case r of
        Inl e \<Rightarrow> Inl e
      | Inr spec \<Rightarrow>
          if ''self'' \<notin> set (args spec) then Inl ValueError
          else
            let as = remove1 ''self'' (args spec);
                ds = (case defaults spec of
                        None \<Rightarrow> []
                      | Some vs \<Rightarrow>
                          if vs \<noteq> [] then zip (drop (length as - length vs) as) vs else []);
                required_args_count = length as - length ds;
                s1 = foldl
                       (\<lambda>s a. s\<lparr>required := required s @ [a],
                                properties := snd (dict_setdefault (properties s) (Some a)
                                                     [(''type'', PyStr ''string'')])\<rparr>)
                       self (take required_args_count as);
                s2 = foldl
                       (\<lambda>s (a, default).
                           s\<lparr>properties := snd (dict_setdefault (properties s) (Some a)
                                  [(''type'', PyStr ''string''), (''default'', default)])\<rparr>)
                       s1 ds
            in Inr s2)"

text \<open>
  \<^verbatim>\<open>model._parse_model\<close>, with the registry \<^verbatim>\<open>settings.models\<close> passed in and returned.
  The result is the exception raised, if any, the decorator object and the registry. The
  registry holds the decorator objects themselves; an object is not changed any more once
  it is appended (\<^verbatim>\<open>__call__\<close> returns at once from then on), so the registry is a list of
  their values.
\<close>

definition parse_model ::
  "model \<Rightarrow> model list \<Rightarrow> pyclass \<Rightarrow> pyerror option \<times> model \<times> model list" where
  "parse_model self models c =
     (let s1 = self\<lparr>model_id := Some (cls_name c), cls := Some c\<rparr>
      in case (case cls_init c of None \<Rightarrow> Inr s1 | Some r \<Rightarrow> model_parse_args s1 r) of
           Inl e \<Rightarrow> (Some e, s1, models)
         | Inr s2 \<Rightarrow>
             let s3 = parse_docstring s2 (cls_doc c) in (None, s3, models @ [s3]))"

text \<open>
  \<^verbatim>\<open>model.__call__\<close> on the positional arguments: the value returned or the exception,
  then the two states.
\<close>

definition model_call ::
  "model \<Rightarrow> model list \<Rightarrow> pyclass list \<Rightarrow> (pyerror + pyclass) \<times> model \<times> model list" where
  "model_call self models a =
     (case cls self of
        Some c \<Rightarrow> (Inr c, self, models)
      | None \<Rightarrow>
          (case a of
             [] \<Rightarrow> (Inl IndexError, self, models)
           | c # _ \<Rightarrow>
               (case parse_model self models c of
                  (Some e, s, ms) \<Rightarrow> (Inl e, s, ms)
                | (None, s, ms) \<Rightarrow> (Inr c, s, ms))))"

section \<open>The \<^verbatim>\<open>operation\<close> decorator\<close>

text \<open>
  Function objects live in a store, addressed by position; a new object is appended. A
  function object has the attributes \<^verbatim>\<open>__name__\<close>, what \<^verbatim>\<open>inspect.getargspec\<close> and
  \<^verbatim>\<open>inspect.getdoc\<close> give for it, the attribute \<^verbatim>\<open>rest_api\<close> if set, and its code:
  either the body of a function of the program, taken as a function from the arguments
  (\<^verbatim>\<open>*args\<close>, \<^verbatim>\<open>**kwds\<close>) to the value returned or the exception raised, or the closure
  \<^verbatim>\<open>__wrapper__\<close> of a decorator object, which calls \<^verbatim>\<open>self.func\<close> of that object when it
  is invoked. Decorator objects are addressed by a number of their own.
\<close>

datatype code =
    Body "pyval list \<Rightarrow> (string \<times> pyval) list \<Rightarrow> pyerror + pyval"
  | Wrapper nat

record funobj =
  fn_name :: string
  fn_argspec :: "pyerror + argspec"
  fn_doc :: "docstring option"
  fn_code :: code
  rest_api :: "nat option"

record operation = docparser +
  nickname :: pyval
  func :: pyval
  func_args :: "string list"
  kwds :: "(string \<times> pyval) list"
  op_name :: "string option"

record world =
  funs :: "funobj list"
  ops :: "nat \<Rightarrow> operation"

definition operation_init :: "pyval \<Rightarrow> (string \<times> pyval) list \<Rightarrow> operation" where
  "operation_init n kw =
     \<lparr>notes = None, summary = None, responseClasses = [], responseMessages = [],
      params = [], properties = [],
      nickname = n, func = PyNone, func_args = [], kwds = kw, op_name = None\<rparr>"

text \<open>The function object a value refers to, if it refers to one.\<close>

definition get_function :: "world \<Rightarrow> pyval \<Rightarrow> funobj option" where
  "get_function w v =
     (case v of
        PyRef a \<Rightarrow> if a < length (funs w) then Some (funs w ! a) else None
      | _ \<Rightarrow> None)"

text \<open>
  Calling a value. A value that is no function object is not callable. A chain of
  closures is followed to its end; the result is \<open>None\<close> if there is no end.
\<close>

partial_function (option) call_value ::
  "world \<Rightarrow> pyval \<Rightarrow> pyval list \<Rightarrow> (string \<times> pyval) list \<Rightarrow> (pyerror + pyval) option"
where
  "call_value w v a kw =
     (case get_function w v of
        None \<Rightarrow> Some (Inl TypeError)
      | Some fo \<Rightarrow>
          (case fn_code fo of
             Body f \<Rightarrow> Some (f a kw)
           | Wrapper self \<Rightarrow> call_value w (func (ops w self)) a kw))"

text \<open>\<^verbatim>\<open>operation._parse_args\<close>.\<close>

definition operation_parse_args :: "operation \<Rightarrow> pyerror + argspec \<Rightarrow> pyerror + operation" where
  "operation_parse_args self r =
     (case r of
        Inl e \<Rightarrow> Inl e
      | Inr spec \<Rightarrow>
          let as = (if ''self'' \<in> set (args spec) then remove1 ''self'' (args spec)
                    else args spec);
              ds = (case defaults spec of
                      None \<Rightarrow> []
                    | Some vs \<Rightarrow> if vs \<noteq> [] then drop (length as - length vs) as else []);
              s1 = foldl
                     (\<lambda>s a. s\<lparr>params := snd (dict_setdefault (params s) (Some a)
                                 [(''name'', PyStr a),
                                  (''required'', PyBool (if a \<in> set ds then False else True)),
                                  (''paramType'', PyStr ''path''),
                                  (''dataType'', PyStr ''string'')])\<rparr>)
                     self as
          in Inr (s1\<lparr>func_args := as\<rparr>))"

text \<open>
  \<^verbatim>\<open>operation._parse_operation\<close>: the exception raised, if any, and the decorator object.
  \<^verbatim>\<open>func.__name__\<close> raises \<^verbatim>\<open>AttributeError\<close> on a value that is no function object.
\<close>

definition parse_operation :: "world \<Rightarrow> operation \<Rightarrow> pyval \<Rightarrow> pyerror option \<times> operation" where
  "parse_operation w self f =
     (let s1 = self\<lparr>func := f\<rparr>
      in case get_function w f of
           None \<Rightarrow> (Some AttributeError, s1)
         | Some fo \<Rightarrow>
             let s2 = s1\<lparr>op_name := Some (fn_name fo)\<rparr>
             in case operation_parse_args s2 (fn_argspec fo) of
                  Inl e \<Rightarrow> (Some e, s2)
                | Inr s3 \<Rightarrow> (None, parse_docstring s3 (fn_doc fo)))"

text \<open>
  The closure \<^verbatim>\<open>__wrapper__\<close> made for decorator object \<open>self\<close> around \<open>fo\<close>:
  \<^verbatim>\<open>functools.wraps\<close> copies the name and the docstring, the signature is made of
  \<^verbatim>\<open>*in_args\<close> and \<^verbatim>\<open>**in_kwds\<close> only, and \<^verbatim>\<open>rest_api\<close> is set to the decorator
  object.
\<close>

definition wrapper :: "nat \<Rightarrow> funobj \<Rightarrow> funobj" where
  "wrapper self fo =
     \<lparr>fn_name = fn_name fo, fn_argspec = Inr \<lparr>args = [], defaults = None\<rparr>,
      fn_doc = fn_doc fo, fn_code = Wrapper self, rest_api = Some self\<rparr>"

text \<open>
  \<^verbatim>\<open>operation.__call__\<close> with positional and keyword arguments on decorator object
  \<open>self\<close>: the value returned or the exception, and the world after the call; \<open>None\<close> if
  the call does not return.
\<close>

definition operation_call ::
  "world \<Rightarrow> nat \<Rightarrow> pyval list \<Rightarrow> (string \<times> pyval) list \<Rightarrow> ((pyerror + pyval) \<times> world) option"
where
  "operation_call w self a kw =
     (if truthy (func (ops w self))
      then map_option (\<lambda>r. (r, w)) (call_value w (func (ops w self)) a kw)
      else
        (case a of
           [] \<Rightarrow> Some (Inl IndexError, w)
         | f # _ \<Rightarrow>
             (case parse_operation w (ops w self) f of
                (Some e, s) \<Rightarrow> Some (Inl e, w\<lparr>ops := (ops w)(self := s)\<rparr>)
              | (None, s) \<Rightarrow>
                  (case get_function w f of
                     None \<Rightarrow> Some (Inl AttributeError, w\<lparr>ops := (ops w)(self := s)\<rparr>)
                   | Some fo \<Rightarrow>
                       Some (Inr (PyRef (length (funs w))),
                             w\<lparr>funs := funs w @ [wrapper self fo],
                               ops := (ops w)(self := s)\<rparr>)))))"

section \<open>Example inputs\<close>

text \<open>
  The body of a field whose text is one plain paragraph, and the body of
  \<^verbatim>\<open>C{list} of L{Widget}\<close>, as epydoc renders them; a field with no text has an empty
  body.
\<close>

definition para :: "string \<Rightarrow> markup" where
  "para p =
     \<lparr>to_plaintext = p @ [CHR 0x0A],
      html_events = [StartTag ''epytext'', StartTag ''para'', Data p, EndTag ''para'',
                     EndTag ''epytext'']\<rparr>"

definition empty_body :: markup where
  "empty_body = \<lparr>to_plaintext = [], html_events = [StartTag ''epytext'', EndTag ''epytext'']\<rparr>"

definition list_of_widget :: markup where
  "list_of_widget =
     \<lparr>to_plaintext = ''list of Widget'' @ [CHR 0x0A],
      html_events =
        [StartTag ''epytext'', StartTag ''para'', StartTag ''code'', Data ''list'',
         EndTag ''code'', Data '' of '', StartTag ''link'', StartTag ''name'', Data ''Widget'',
         EndTag ''name'', StartTag ''target'', Data ''Widget'', EndTag ''target'',
         EndTag ''link'', EndTag ''para'', EndTag ''epytext'']\<rparr>"

definition code_dict :: markup where
  "code_dict =
     \<lparr>to_plaintext = ''dict'' @ [CHR 0x0A],
      html_events =
        [StartTag ''epytext'', StartTag ''para'', StartTag ''code'', Data ''dict'',
         EndTag ''code'', EndTag ''para'', EndTag ''epytext'']\<rparr>"

text \<open>
  The bodies of \<^verbatim>\<open>C{list} or C{dict} of L{Widget}\<close> and of
  \<^verbatim>\<open>C{dict} or C{list} of L{Widget}\<close>.
\<close>

definition list_or_dict :: markup where
  "list_or_dict =
     \<lparr>to_plaintext = ''list or dict of Widget'' @ [CHR 0x0A],
      html_events =
        [StartTag ''epytext'', StartTag ''para'', StartTag ''code'', Data ''list'',
         EndTag ''code'', Data '' or '', StartTag ''code'', Data ''dict'', EndTag ''code'',
         Data '' of '', StartTag ''link'', StartTag ''name'', Data ''Widget'',
         EndTag ''name'', StartTag ''target'', Data ''Widget'', EndTag ''target'',
         EndTag ''link'', EndTag ''para'', EndTag ''epytext'']\<rparr>"


text \<open>
  A class \<^verbatim>\<open>Widget\<close> with the constructor \<^verbatim>\<open>__init__(self, a, b=5)\<close> and a docstring
  with the fields \<^verbatim>\<open>@ptype b: int\<close> and \<^verbatim>\<open>@property a: the a\<close>; the decorator object
  after the constructor has been read and after the docstring has been read; and a class
  whose constructor names its receiver \<^verbatim>\<open>this\<close>.
\<close>

definition widget_class :: pyclass where
  "widget_class =
     \<lparr>cls_name = ''Widget'',
      cls_init = Some (Inr \<lparr>args = [''self'', ''a'', ''b''], defaults = Some [PyInt 5]\<rparr>),
      cls_doc = Some (Docstring
        [\<lparr>tag = ''ptype'', arg = Some ''b'', body = Some (para ''int'')\<rparr>,
         \<lparr>tag = ''property'', arg = Some ''a'', body = Some (para ''the a'')\<rparr>])\<rparr>"


definition widget_model :: model where
  "widget_model =
     \<lparr>notes = None, summary = None, responseClasses = [], responseMessages = [],
      params = [],
      properties =
        [(Some ''a'', [(''type'', PyStr ''string''), (''description'', PyStr ''the a'')]),
         (Some ''b'', [(''type'', PyStr ''int''), (''default'', PyInt 5)])],
      model_args = [], model_kwargs = [], required = [''a''], cls = Some widget_class,
      model_id = Some ''Widget''\<rparr>"

definition this_class :: pyclass where
  "this_class =
     \<lparr>cls_name = ''Broken'',
      cls_init = Some (Inr \<lparr>args = [''this'', ''a''], defaults = None\<rparr>),
      cls_doc = None\<rparr>"

text \<open>
  The decorator object after a call on that class has raised.
\<close>

definition this_model :: model where
  "this_model =
     \<lparr>notes = None, summary = None, responseClasses = [], responseMessages = [],
      params = [], properties = [],
      model_args = [], model_kwargs = [], required = [], cls = Some this_class,
      model_id = Some ''Broken''\<rparr>"

text \<open>
  A function \<^verbatim>\<open>def ping(request): return 'pong'\<close> with the docstring
  \<^verbatim>\<open>@param request: the request\<close>, a world that holds it at address 0 and in which no
  decorator object has been called yet, the decorator object 0 after it has decorated the
  function, and the world after that decoration.
\<close>

definition ping :: funobj where
  "ping =
     \<lparr>fn_name = ''ping'',
      fn_argspec = Inr \<lparr>args = [''request''], defaults = None\<rparr>,
      fn_doc = Some (Docstring
        [\<lparr>tag = ''param'', arg = Some ''request'', body = Some (para ''the request'')\<rparr>]),
      fn_code = Body (\<lambda>a kw. if length a = 1 \<and> kw = [] then Inr (PyStr ''pong'')
                              else Inl TypeError),
      rest_api = None\<rparr>"

definition world0 :: world where
  "world0 = \<lparr>funs = [ping], ops = (\<lambda>_. operation_init PyNone [])\<rparr>"

definition ping_seeded :: operation where
  "ping_seeded =
     \<lparr>notes = None, summary = None, responseClasses = [], responseMessages = [],
      params =
        [(Some ''request'',
          [(''name'', PyStr ''request''), (''required'', PyBool True),
           (''paramType'', PyStr ''path''), (''dataType'', PyStr ''string'')])],
      properties = [],
      nickname = PyNone, func = PyRef 0, func_args = [''request''], kwds = [],
      op_name = Some ''ping''\<rparr>"

definition ping_operation :: operation where
  "ping_operation =
     \<lparr>notes = None, summary = None, responseClasses = [], responseMessages = [],
      params =
        [(Some ''request'',
          [(''name'', PyStr ''request''), (''required'', PyBool True),
           (''paramType'', PyStr ''path''), (''dataType'', PyStr ''string''),
           (''description'', PyStr ''the request'')])],
      properties = [],
      nickname = PyNone, func = PyRef 0, func_args = [''request''], kwds = [],
      op_name = Some ''ping''\<rparr>"

definition world1 :: world where
  "world1 =
     world0\<lparr>funs := funs world0 @ [wrapper 0 ping],
            ops := (ops world0)(0 := ping_operation)\<rparr>"

section \<open>Dictionaries: lookup after update\<close>

lemma dict_update_Nil: "dict_update e [] = e"
  by (simp add: dict_update_def)

lemma dict_update_Cons: "dict_update e ((k, v) # kvs) = dict_update (dict_set e k v) kvs"
  by (simp add: dict_update_def)

lemma map_of_dict_set: "map_of (dict_set d k v) = (map_of d)(k \<mapsto> v)"
  by (simp add: dict_set_def update_conv')

lemma dict_upsert_same:
  "map_of (dict_upsert d k kvs) k =
     Some (dict_update (case map_of d k of None \<Rightarrow> [] | Some e \<Rightarrow> e) kvs)"
  by (simp add: dict_upsert_def dict_setdefault_def map_of_dict_set split: option.splits)

lemma dict_upsert_other: "k' \<noteq> k \<Longrightarrow> map_of (dict_upsert d k kvs) k' = map_of d k'"
  by (auto simp add: dict_upsert_def dict_setdefault_def map_of_dict_set map_add_def
      split: option.splits)

lemmas dict_simps =
  dict_get2_def dict_upsert_same dict_update_Cons dict_update_Nil map_of_dict_set dict_has_def

lemmas dict_defs = dict_get2_def dict_upsert_def dict_setdefault_def dict_update_def dict_set_def
  dict_has_def

section \<open>The dispatch table\<close>

lemmas handler_defs = parse_param_def parse_type_def parse_in_def parse_required_def
  parse_rtype_def parse_property_def parse_ptype_def parse_return_def parse_notes_def
  parse_description_def not_supported_def

lemmas body_defs = get_body_def strip_def is_space_def para_def empty_body_def
  list_of_widget_def code_dict_def

lemmas epytext_defs = parse_epytext_para_def feed_def EpytextParser_def get_data_def
  handle_starttag_def handle_endtag_def handle_data_def

lemma dispatch_required:
  "dispatch s \<lparr>tag = ''required'', arg = x, body = b\<rparr> = parse_required s x b"
  by (simp add: dispatch_def get_parser_def)

lemma dispatch_param: "dispatch s \<lparr>tag = ''param'', arg = x, body = b\<rparr> = parse_param s x b"
  by (simp add: dispatch_def get_parser_def)

lemma dispatch_in: "dispatch s \<lparr>tag = ''in'', arg = x, body = b\<rparr> = parse_in s x b"
  by (simp add: dispatch_def get_parser_def)

lemma dispatch_ptype: "dispatch s \<lparr>tag = ''ptype'', arg = x, body = b\<rparr> = parse_ptype s x b"
  by (simp add: dispatch_def get_parser_def)


lemma parse_fields_Nil: "parse_fields s [] = s"
  by (simp add: parse_fields_def)

lemma parse_fields_Cons: "parse_fields s (f # fs) = parse_fields (dispatch s f) fs"
  by (simp add: parse_fields_def)

lemma parse_fields_append: "parse_fields s (fs @ gs) = parse_fields (parse_fields s fs) gs"
  by (simp add: parse_fields_def)

lemma parse_fields_snoc: "parse_fields s (fs @ [f]) = dispatch (parse_fields s fs) f"
  by (simp add: parse_fields_def)

section \<open>Parameters seeded from the signature\<close>

lemma seed_params_invariant:
  assumes "\<And>k e. map_of (params s) k = Some e \<Longrightarrow> P e" and "\<And>a. P (E a)"
  shows "map_of (params (foldl (\<lambda>s a. s\<lparr>params := snd (dict_setdefault (params s) (Some a) (E a))\<rparr>) s xs)) k = Some e \<Longrightarrow> P e"
  using assms(1)
proof (induction xs arbitrary: s)
  case Nil
  then show ?case by simp
next
  case (Cons x xs)
  let ?s = "s\<lparr>params := snd (dict_setdefault (params s) (Some x) (E x))\<rparr>"
  have "\<And>k e. map_of (params ?s) k = Some e \<Longrightarrow> P e"
    using Cons.prems(2) assms(2)
    by (auto simp: dict_setdefault_def map_add_def split: option.splits if_splits)
  with Cons.IH[of ?s] Cons.prems(1) show ?case by simp
qed

lemma seed_params_keys:
  "(x \<in> set xs \<or> map_of (params s) (Some x) \<noteq> None) \<Longrightarrow>
   map_of (params (foldl (\<lambda>s a. s\<lparr>params := snd (dict_setdefault (params s) (Some a) (E a))\<rparr>) s xs)) (Some x) \<noteq> None"
proof (induction xs arbitrary: s)
  case Nil
  then show ?case by simp
next
  case (Cons y xs)
  let ?s = "s\<lparr>params := snd (dict_setdefault (params s) (Some y) (E y))\<rparr>"
  have "x \<in> set xs \<or> map_of (params ?s) (Some x) \<noteq> None"
    using Cons.prems by (auto simp: dict_setdefault_def map_add_def split: option.splits)
  from Cons.IH[OF this] show ?case by simp
qed

lemma operation_seeds_path:
  assumes "params s0 = []" and "operation_parse_args s0 (Inr spec) = Inr s" and "x \<in> set (func_args s)"
  shows "dict_get2 (params s) (Some x) ''paramType'' = Some (PyStr ''path'')"
proof -
  let ?as = "if ''self'' \<in> set (args spec) then remove1 ''self'' (args spec) else args spec"
  let ?ds = "case defaults spec of None \<Rightarrow> [] | Some vs \<Rightarrow> if vs \<noteq> [] then drop (length ?as - length vs) ?as else []"
  let ?E = "\<lambda>a. [(''name'', PyStr a), (''required'', PyBool (if a \<in> set ?ds then False else True)),
                                  (''paramType'', PyStr ''path''), (''dataType'', PyStr ''string'')]"
  let ?f = "foldl (\<lambda>s a. s\<lparr>params := snd (dict_setdefault (params s) (Some a) (?E a))\<rparr>) s0 ?as"
  have s: "s = ?f\<lparr>func_args := ?as\<rparr>"
    using assms(2) by (simp add: operation_parse_args_def Let_def)
  then have x: "x \<in> set ?as" using assms(3) by simp
  have "map_of (params ?f) (Some x) \<noteq> None"
    by (rule seed_params_keys) (use x in simp)
  then obtain e where e: "map_of (params ?f) (Some x) = Some e" by blast
  have "map_of e ''paramType'' = Some (PyStr ''path'')"
    by (rule seed_params_invariant[where P = "\<lambda>e. map_of e ''paramType'' = Some (PyStr ''path'')" and E = ?E, OF _ _ e])
       (simp_all add: assms(1))
  then show ?thesis using e s by (simp add: dict_get2_def)
qed

lemma ping_seeds:
  "operation_parse_args ((operation_init PyNone [])\<lparr>func := PyRef 0, op_name := Some ''ping''\<rparr>)
     (Inr \<lparr>args = [''request''], defaults = None\<rparr>) = Inr ping_seeded"
  by (simp add: operation_parse_args_def operation_init_def ping_seeded_def dict_setdefault_def)

section \<open>The \<^verbatim>\<open>required\<close> field\<close>

text \<open>
  Claim C2, as the code has it. Dispatching a \<^verbatim>\<open>required\<close> field for parameter \<open>x\<close> sets
  \<^verbatim>\<open>params[x]['required']\<close> to false when the body is exactly \<^verbatim>\<open>false\<close> or exactly
  \<^verbatim>\<open>False\<close>, and to true for every other body, an absent one included. The body is the
  stripped plaintext that \<^verbatim>\<open>_get_body\<close> returns.
\<close>

theorem required_dispatch:
  "dict_get2 (params (dispatch s \<lparr>tag = ''required'', arg = x, body = b\<rparr>)) x ''required'' =
     Some (PyBool (get_body b \<noteq> Some ''false'' \<and> get_body b \<noteq> Some ''False''))"
  by (simp add: dispatch_required parse_required_def dict_simps)

theorem required_dispatch_witness:
  "dict_get2 (params (dispatch DocParser
       \<lparr>tag = ''required'', arg = Some ''x'', body = Some (para ''false'')\<rparr>))
     (Some ''x'') ''required'' = Some (PyBool False) \<and>
   dict_get2 (params (dispatch DocParser
       \<lparr>tag = ''required'', arg = Some ''x'', body = Some (para ''true'')\<rparr>))
     (Some ''x'') ''required'' = Some (PyBool True)"
  using required_dispatch [of DocParser "Some ''x''" "Some (para ''false'')"]
    required_dispatch [of DocParser "Some ''x''" "Some (para ''true'')"]
  by (simp add: body_defs)

text \<open>
  The claim as written has the body \<^verbatim>\<open>False\<close> give true; the code gives false.
\<close>

theorem required_False_counterexample:
  "dict_get2 (params (dispatch DocParser
       \<lparr>tag = ''required'', arg = Some ''x'', body = Some (para ''False'')\<rparr>))
     (Some ''x'') ''required'' = Some (PyBool False) \<and>
   dict_get2 (params (dispatch DocParser
       \<lparr>tag = ''required'', arg = Some ''x'', body = Some (para ''False'')\<rparr>))
     (Some ''x'') ''required'' \<noteq> Some (PyBool True)"
  by (simp add: dispatch_required parse_required_def dict_simps body_defs DocParser_def)

section \<open>The \<^verbatim>\<open>param\<close> field\<close>

text \<open>
  Claim C6. Dispatching a \<^verbatim>\<open>param\<close> field with argument \<open>x\<close> in any state sets
  \<^verbatim>\<open>params[x]['name']\<close> to \<open>x\<close> and \<^verbatim>\<open>params[x]['description']\<close> to the body plaintext
  (what \<^verbatim>\<open>_get_body\<close> returns), and \<^verbatim>\<open>params[x]['paramType']\<close> becomes \<^verbatim>\<open>query\<close> when it
  was unset for \<open>x\<close> and keeps its value when it was set. So it stays \<^verbatim>\<open>path\<close> for a
  parameter that \<^verbatim>\<open>operation._parse_args\<close> has seeded from the signature, and stays what
  an \<^verbatim>\<open>in\<close> field before it has set.
\<close>

theorem param_dispatch:
  "dict_get2 (params (dispatch s \<lparr>tag = ''param'', arg = x, body = b\<rparr>)) x ''name'' =
     Some (of_opt x) \<and>
   dict_get2 (params (dispatch s \<lparr>tag = ''param'', arg = x, body = b\<rparr>)) x ''description'' =
     Some (of_opt (get_body b)) \<and>
   dict_get2 (params (dispatch s \<lparr>tag = ''param'', arg = x, body = b\<rparr>)) x ''paramType'' =
     (case dict_get2 (params s) x ''paramType'' of
        None \<Rightarrow> Some (PyStr ''query'')
      | Some t \<Rightarrow> Some t) \<and>
   (params s0 = [] \<and> operation_parse_args s0 (Inr spec) = Inr s1 \<and> y \<in> set (func_args s1) \<longrightarrow>
      dict_get2 (params (dispatch s1 \<lparr>tag = ''param'', arg = Some y, body = b\<rparr>)) (Some y)
        ''paramType'' = Some (PyStr ''path'')) \<and>
   dict_get2 (params (dispatch (dispatch s \<lparr>tag = ''in'', arg = x, body = b'\<rparr>)
                        \<lparr>tag = ''param'', arg = x, body = b\<rparr>)) x ''paramType'' =
     Some (of_opt (get_body b'))"
proof -
  have p: "\<And>s :: 'c docparser_scheme.
     dict_get2 (params (dispatch s \<lparr>tag = ''param'', arg = x, body = b\<rparr>)) x ''paramType'' =
     (case dict_get2 (params s) x ''paramType'' of
        None \<Rightarrow> Some (PyStr ''query'')
      | Some t \<Rightarrow> Some t)"
    by (simp add: dispatch_param parse_param_def dict_simps Let_def split: option.splits)
  have q: "\<And>s :: operation.
     dict_get2 (params (dispatch s \<lparr>tag = ''param'', arg = Some y, body = b\<rparr>)) (Some y) ''paramType'' =
     (case dict_get2 (params s) (Some y) ''paramType'' of
        None \<Rightarrow> Some (PyStr ''query'')
      | Some t \<Rightarrow> Some t)"
    by (simp add: dispatch_param parse_param_def dict_simps Let_def split: option.splits)
  have 1: "dict_get2 (params (dispatch s \<lparr>tag = ''param'', arg = x, body = b\<rparr>)) x ''name'' =
     Some (of_opt x)"
    by (simp add: dispatch_param parse_param_def dict_simps Let_def split: option.splits)
  have 2: "dict_get2 (params (dispatch s \<lparr>tag = ''param'', arg = x, body = b\<rparr>)) x
     ''description'' = Some (of_opt (get_body b))"
    by (simp add: dispatch_param parse_param_def dict_simps Let_def split: option.splits)
  have 4: "params s0 = [] \<and> operation_parse_args s0 (Inr spec) = Inr s1 \<and>
      y \<in> set (func_args s1) \<longrightarrow>
      dict_get2 (params (dispatch s1 \<lparr>tag = ''param'', arg = Some y, body = b\<rparr>)) (Some y)
        ''paramType'' = Some (PyStr ''path'')"
    using operation_seeds_path [of s0 spec s1 y] by (simp add: q)
  have "dict_get2 (params (dispatch s \<lparr>tag = ''in'', arg = x, body = b'\<rparr>)) x ''paramType'' =
     Some (of_opt (get_body b'))"
    by (simp add: dispatch_in parse_in_def dict_simps)
  then have 5: "dict_get2 (params (dispatch (dispatch s \<lparr>tag = ''in'', arg = x, body = b'\<rparr>)
                        \<lparr>tag = ''param'', arg = x, body = b\<rparr>)) x ''paramType'' =
     Some (of_opt (get_body b'))"
    by (simp add: p)
  show ?thesis
    using 1 2 p [of s] 4 5 by blast
qed

theorem param_dispatch_witness:
  "dict_get2 (params (dispatch DocParser
       \<lparr>tag = ''param'', arg = Some ''x'', body = Some (para ''some text'')\<rparr>))
     (Some ''x'') ''name'' = Some (PyStr ''x'') \<and>
   dict_get2 (params (dispatch DocParser
       \<lparr>tag = ''param'', arg = Some ''x'', body = Some (para ''some text'')\<rparr>))
     (Some ''x'') ''description'' = Some (PyStr ''some text'') \<and>
   dict_get2 (params (dispatch DocParser
       \<lparr>tag = ''param'', arg = Some ''x'', body = Some (para ''some text'')\<rparr>))
     (Some ''x'') ''paramType'' = Some (PyStr ''query'') \<and>
   operation_parse_args
       ((operation_init PyNone [])\<lparr>func := PyRef 0, op_name := Some ''ping''\<rparr>)
       (Inr \<lparr>args = [''request''], defaults = None\<rparr>) = Inr ping_seeded \<and>
   dict_get2 (params (dispatch ping_seeded
       \<lparr>tag = ''param'', arg = Some ''request'', body = Some (para ''some text'')\<rparr>))
     (Some ''request'') ''paramType'' = Some (PyStr ''path'') \<and>
   dict_get2 (params (dispatch
       (dispatch DocParser \<lparr>tag = ''in'', arg = Some ''x'', body = Some (para ''body'')\<rparr>)
       \<lparr>tag = ''param'', arg = Some ''x'', body = Some (para ''some text'')\<rparr>))
     (Some ''x'') ''paramType'' = Some (PyStr ''body'')"
proof -
  have e: "params ((operation_init PyNone [])\<lparr>func := PyRef 0, op_name := Some ''ping''\<rparr>) = []"
    by (simp add: operation_init_def)
  have y: "''request'' \<in> set (func_args ping_seeded)"
    by (simp add: ping_seeded_def)
  have g: "get_body (Some (para ''some text'')) = Some ''some text''"
      "get_body (Some (para ''body'')) = Some ''body''"
    by (simp_all add: body_defs)
  have n: "dict_get2 (params (DocParser :: docparser)) (Some ''x'') ''paramType'' = None"
    by (simp add: DocParser_def dict_get2_def)
  show ?thesis
    using ping_seeds g n
      param_dispatch [of DocParser "Some ''x''" "Some (para ''some text'')"
        "(operation_init PyNone [])\<lparr>func := PyRef 0, op_name := Some ''ping''\<rparr>"
        "\<lparr>args = [''request''], defaults = None\<rparr>" ping_seeded "''request''"
        "Some (para ''body'')"]
    by (simp add: e y)
qed

section \<open>The \<^verbatim>\<open>ptype\<close> field\<close>

text \<open>
  What \<^verbatim>\<open>EpytextParser\<close> reads. Outside an element of its tag it changes nothing. Inside
  one it keeps the last piece of text, and a later element replaces what an earlier one
  gave: the result is the last text of the last element of the tag that holds a text, and
  nothing when the body has no element of the tag.
\<close>

lemma feed_closed:
  "\<not> a_text p \<Longrightarrow> StartTag (ep_tag p) \<notin> set evs \<Longrightarrow> foldl handle_event p evs = p"
proof (induction evs)
  case Nil
  show ?case by simp
next
  case (Cons ev evs)
  have "handle_event p ev = p"
    using Cons.prems
    by (cases ev) (auto simp: handle_starttag_def handle_endtag_def handle_data_def)
  then show ?case using Cons by simp
qed

lemma ep_tag_feed: "ep_tag (foldl handle_event p evs) = ep_tag p"
proof (induction evs arbitrary: p)
  case Nil
  show ?case by simp
next
  case (Cons ev evs)
  have "ep_tag (handle_event p ev) = ep_tag p"
    by (cases ev) (simp_all add: handle_starttag_def handle_endtag_def handle_data_def)
  with Cons show ?case by simp
qed

lemma feed_open:
  "a_text p \<Longrightarrow> EndTag (ep_tag p) \<notin> set evs \<Longrightarrow> \<forall>e\<in>set evs. \<forall>x. e \<noteq> Data x \<Longrightarrow>
   foldl handle_event p evs = p"
proof (induction evs)
  case Nil
  show ?case by simp
next
  case (Cons ev evs)
  have "handle_event p ev = p"
    using Cons.prems
    by (cases ev) (auto simp: handle_starttag_def handle_endtag_def handle_data_def)
  then show ?case using Cons by simp
qed

lemma feed_stays_open:
  "a_text p \<Longrightarrow> EndTag (ep_tag p) \<notin> set evs \<Longrightarrow> a_text (foldl handle_event p evs)"
proof (induction evs arbitrary: p)
  case Nil
  then show ?case by simp
next
  case (Cons ev evs)
  have "a_text (handle_event p ev) \<and> ep_tag (handle_event p ev) = ep_tag p"
    using Cons.prems
    by (cases ev) (auto simp: handle_starttag_def handle_endtag_def handle_data_def)
  then show ?case using Cons by simp
qed

lemma last_span_text:
  assumes "html_events m = pre @ [StartTag t] @ i1 @ [Data d] @ i2 @ [EndTag t] @ post"
    and "StartTag t \<notin> set post" and "EndTag t \<notin> set (i1 @ i2)"
    and "\<forall>e\<in>set i2. \<forall>x. e \<noteq> Data x"
  shows "parse_epytext_para t (Some m) = Some d"
proof -
  let ?p0 = "foldl handle_event (EpytextParser t) pre"
  have t0: "ep_tag ?p0 = t"
    by (simp add: ep_tag_feed EpytextParser_def)
  let ?p1 = "handle_event ?p0 (StartTag t)"
  have p1: "a_text ?p1" "ep_tag ?p1 = t"
    using t0 by (simp_all add: handle_starttag_def)
  let ?p2 = "foldl handle_event ?p1 i1"
  have p2: "a_text ?p2" "ep_tag ?p2 = t"
    using p1 assms(3) by (simp_all add: feed_stays_open ep_tag_feed)
  let ?p3 = "handle_event ?p2 (Data d)"
  have p3: "a_text ?p3" "ep_tag ?p3 = t" "ep_data ?p3 = Some d"
    using p2 by (simp_all add: handle_data_def)
  have p4: "foldl handle_event ?p3 i2 = ?p3"
    using p3 assms(3,4) by (intro feed_open) simp_all
  let ?p5 = "handle_event ?p3 (EndTag t)"
  have p5: "\<not> a_text ?p5" "ep_tag ?p5 = t" "ep_data ?p5 = Some d"
    using p3 by (simp_all add: handle_endtag_def)
  have p6: "foldl handle_event ?p5 post = ?p5"
    using p5 assms(2) by (intro feed_closed) simp_all
  have "foldl handle_event (EpytextParser t)
          (pre @ [StartTag t] @ i1 @ [Data d] @ i2 @ [EndTag t] @ post) = ?p5"
    by (simp only: foldl_append foldl_Cons foldl_Nil p4 p6)
  then show ?thesis
    using p5(3) by (simp add: parse_epytext_para_def feed_def get_data_def assms(1))
qed

lemma last_simple_span_text:
  assumes "html_events m = pre @ [StartTag t, Data d, EndTag t] @ post"
    and "StartTag t \<notin> set post"
  shows "parse_epytext_para t (Some m) = Some d"
  using last_span_text [of m pre t "[]" d "[]" post] assms by simp

lemma no_span_text:
  "StartTag t \<notin> set (html_events m) \<Longrightarrow> parse_epytext_para t (Some m) = None"
proof -
  assume a: "StartTag t \<notin> set (html_events m)"
  have "foldl handle_event (EpytextParser t) (html_events m) = EpytextParser t"
    using a by (intro feed_closed) (simp_all add: EpytextParser_def)
  then show ?thesis
    by (simp add: parse_epytext_para_def feed_def get_data_def EpytextParser_def)
qed


text \<open>
  Claim C7, as the code has it. Dispatching a \<^verbatim>\<open>ptype\<close> field for property \<open>p\<close> whose body
  has \<^verbatim>\<open>list\<close> as its last \<^verbatim>\<open>code\<close> span (no \<^verbatim>\<open>code\<close> span starts after it) and \<open>W\<close> as
  the last text of its last \<^verbatim>\<open>link\<close> span sets \<^verbatim>\<open>properties[p]['type']\<close> to \<^verbatim>\<open>array\<close> and
  \<^verbatim>\<open>properties[p]['items']\<close> to \<^verbatim>\<open>{'type': W}\<close>. A body with no \<^verbatim>\<open>code\<close> span sets
  \<^verbatim>\<open>properties[p]['type']\<close> to the body plaintext (what \<^verbatim>\<open>_get_body\<close> returns), and an
  absent body sets it to \<^verbatim>\<open>None\<close>.
\<close>

theorem ptype_last_spans:
  "(html_events m = pre @ [StartTag ''code'', Data ''list'', EndTag ''code''] @ post \<and>
    StartTag ''code'' \<notin> set post \<and>
    html_events m = pre' @ [StartTag ''link''] @ i1 @ [Data W] @ i2 @ [EndTag ''link''] @ post' \<and>
    StartTag ''link'' \<notin> set post' \<and> EndTag ''link'' \<notin> set (i1 @ i2) \<and>
    (\<forall>e\<in>set i2. \<forall>x. e \<noteq> Data x) \<longrightarrow>
      dict_get2 (properties (dispatch s \<lparr>tag = ''ptype'', arg = p, body = Some m\<rparr>)) p ''type'' =
        Some (PyStr ''array'') \<and>
      dict_get2 (properties (dispatch s \<lparr>tag = ''ptype'', arg = p, body = Some m\<rparr>)) p ''items'' =
        Some (PyDict [(''type'', PyStr W)])) \<and>
   (StartTag ''code'' \<notin> set (html_events m') \<longrightarrow>
      dict_get2 (properties (dispatch s \<lparr>tag = ''ptype'', arg = p, body = Some m'\<rparr>)) p ''type'' =
        Some (of_opt (get_body (Some m')))) \<and>
   dict_get2 (properties (dispatch s \<lparr>tag = ''ptype'', arg = p, body = None\<rparr>)) p ''type'' =
     Some PyNone"
proof (intro conjI impI)
  assume h: "html_events m = pre @ [StartTag ''code'', Data ''list'', EndTag ''code''] @ post \<and>
    StartTag ''code'' \<notin> set post \<and>
    html_events m = pre' @ [StartTag ''link''] @ i1 @ [Data W] @ i2 @ [EndTag ''link''] @ post' \<and>
    StartTag ''link'' \<notin> set post' \<and> EndTag ''link'' \<notin> set (i1 @ i2) \<and>
    (\<forall>e\<in>set i2. \<forall>x. e \<noteq> Data x)"
  have c: "parse_epytext_para ''code'' (Some m) = Some ''list''"
    using h last_simple_span_text [of m pre "''code''" "''list''" post] by blast
  have l: "parse_epytext_para ''link'' (Some m) = Some W"
    using h last_span_text [of m pre' "''link''" i1 W i2 post'] by blast
  show "dict_get2 (properties (dispatch s \<lparr>tag = ''ptype'', arg = p, body = Some m\<rparr>)) p ''type'' =
        Some (PyStr ''array'')"
    by (simp add: dispatch_ptype parse_ptype_def c l dict_simps)
  show "dict_get2 (properties (dispatch s \<lparr>tag = ''ptype'', arg = p, body = Some m\<rparr>)) p ''items'' =
        Some (PyDict [(''type'', PyStr W)])"
    by (simp add: dispatch_ptype parse_ptype_def c l dict_simps)
next
  assume "StartTag ''code'' \<notin> set (html_events m')"
  then have "parse_epytext_para ''code'' (Some m') = None"
    by (rule no_span_text)
  then show "dict_get2 (properties (dispatch s \<lparr>tag = ''ptype'', arg = p, body = Some m'\<rparr>)) p ''type'' =
        Some (of_opt (get_body (Some m')))"
    by (simp add: dispatch_ptype parse_ptype_def dict_simps)
next
  show "dict_get2 (properties (dispatch s \<lparr>tag = ''ptype'', arg = p, body = None\<rparr>)) p ''type'' =
     Some PyNone"
    by (simp add: dispatch_ptype parse_ptype_def parse_epytext_para_def get_body_def dict_simps)
qed

theorem ptype_last_spans_witness:
  "html_events list_of_widget =
     [StartTag ''epytext'', StartTag ''para''] @
     [StartTag ''code'', Data ''list'', EndTag ''code''] @
     [Data '' of '', StartTag ''link'', StartTag ''name'', Data ''Widget'', EndTag ''name'',
      StartTag ''target'', Data ''Widget'', EndTag ''target'', EndTag ''link'', EndTag ''para'',
      EndTag ''epytext''] \<and>
   html_events list_of_widget =
     [StartTag ''epytext'', StartTag ''para'', StartTag ''code'', Data ''list'', EndTag ''code'',
      Data '' of ''] @
     [StartTag ''link''] @
     [StartTag ''name'', Data ''Widget'', EndTag ''name'', StartTag ''target''] @
     [Data ''Widget''] @ [EndTag ''target''] @ [EndTag ''link''] @
     [EndTag ''para'', EndTag ''epytext''] \<and>
   dict_get2 (properties (dispatch DocParser
       \<lparr>tag = ''ptype'', arg = Some ''p'', body = Some list_of_widget\<rparr>))
     (Some ''p'') ''type'' = Some (PyStr ''array'') \<and>
   dict_get2 (properties (dispatch DocParser
       \<lparr>tag = ''ptype'', arg = Some ''p'', body = Some list_of_widget\<rparr>))
     (Some ''p'') ''items'' = Some (PyDict [(''type'', PyStr ''Widget'')]) \<and>
   StartTag ''code'' \<notin> set (html_events (para ''int'')) \<and>
   dict_get2 (properties (dispatch DocParser
       \<lparr>tag = ''ptype'', arg = Some ''p'', body = Some (para ''int'')\<rparr>))
     (Some ''p'') ''type'' = Some (PyStr ''int'')"
proof -
  let ?pre = "[StartTag ''epytext'', StartTag ''para'']"
  let ?post = "[Data '' of '', StartTag ''link'', StartTag ''name'', Data ''Widget'', EndTag ''name'',
      StartTag ''target'', Data ''Widget'', EndTag ''target'', EndTag ''link'', EndTag ''para'',
      EndTag ''epytext'']"
  let ?pre' = "[StartTag ''epytext'', StartTag ''para'', StartTag ''code'', Data ''list'', EndTag ''code'',
      Data '' of '']"
  let ?i1 = "[StartTag ''name'', Data ''Widget'', EndTag ''name'', StartTag ''target'']"
  let ?i2 = "[EndTag ''target'']"
  let ?post' = "[EndTag ''para'', EndTag ''epytext'']"
  have e1: "html_events list_of_widget =
      ?pre @ [StartTag ''code'', Data ''list'', EndTag ''code''] @ ?post"
    by (simp add: list_of_widget_def)
  have e2: "html_events list_of_widget =
      ?pre' @ [StartTag ''link''] @ ?i1 @ [Data ''Widget''] @ ?i2 @ [EndTag ''link''] @ ?post'"
    by (simp add: list_of_widget_def)
  have c: "StartTag ''code'' \<notin> set ?post" "StartTag ''link'' \<notin> set ?post'"
      "EndTag ''link'' \<notin> set (?i1 @ ?i2)" "\<forall>e\<in>set ?i2. \<forall>x. e \<noteq> Data x"
    by simp_all
  have n: "StartTag ''code'' \<notin> set (html_events (para ''int''))"
    by (simp add: para_def)
  have g: "get_body (Some (para ''int'')) = Some ''int''"
    by (simp add: body_defs)
  note T = ptype_last_spans [of list_of_widget ?pre ?post ?pre' ?i1 "''Widget''" ?i2 ?post'
      DocParser "Some ''p''" "para ''int''"]
  have a: "dict_get2 (properties (dispatch DocParser
       \<lparr>tag = ''ptype'', arg = Some ''p'', body = Some list_of_widget\<rparr>))
     (Some ''p'') ''type'' = Some (PyStr ''array'') \<and>
   dict_get2 (properties (dispatch DocParser
       \<lparr>tag = ''ptype'', arg = Some ''p'', body = Some list_of_widget\<rparr>))
     (Some ''p'') ''items'' = Some (PyDict [(''type'', PyStr ''Widget'')])"
    using conjunct1 [OF T] e1 e2 c by blast
  have b: "dict_get2 (properties (dispatch DocParser
       \<lparr>tag = ''ptype'', arg = Some ''p'', body = Some (para ''int'')\<rparr>))
     (Some ''p'') ''type'' = Some (PyStr ''int'')"
    using conjunct1 [OF conjunct2 [OF T]] n g by simp
  show ?thesis
    using e1 e2 a b n by blast
qed

text \<open>
  The claim as written asks only that the body contain a \<^verbatim>\<open>code\<close> span equal to \<^verbatim>\<open>list\<close>
  and a \<^verbatim>\<open>link\<close> span. The body of \<^verbatim>\<open>C{list} or C{dict} of L{Widget}\<close> does, and the field
  sets nothing, since the text of the later span \<^verbatim>\<open>C{dict}\<close> is the one that is read.
\<close>

theorem ptype_list_then_dict_counterexample:
  "html_events list_or_dict =
     [StartTag ''epytext'', StartTag ''para''] @
     [StartTag ''code'', Data ''list'', EndTag ''code''] @
     [Data '' or '', StartTag ''code'', Data ''dict'', EndTag ''code'', Data '' of ''] @
     [StartTag ''link'', StartTag ''name'', Data ''Widget'', EndTag ''name'',
      StartTag ''target'', Data ''Widget'', EndTag ''target'', EndTag ''link''] @
     [EndTag ''para'', EndTag ''epytext''] \<and>
   dict_get2 (properties (dispatch DocParser
       \<lparr>tag = ''ptype'', arg = Some ''p'', body = Some list_or_dict\<rparr>))
     (Some ''p'') ''type'' = None \<and>
   dict_get2 (properties (dispatch DocParser
       \<lparr>tag = ''ptype'', arg = Some ''p'', body = Some list_or_dict\<rparr>))
     (Some ''p'') ''items'' = None \<and>
   dispatch DocParser \<lparr>tag = ''ptype'', arg = Some ''p'', body = Some list_or_dict\<rparr> = DocParser"
proof -
  have c: "parse_epytext_para ''code'' (Some list_or_dict) = Some ''dict''"
    by (simp add: epytext_defs list_or_dict_def)
  have d: "dispatch DocParser \<lparr>tag = ''ptype'', arg = Some ''p'', body = Some list_or_dict\<rparr> =
      DocParser"
    by (simp add: dispatch_ptype parse_ptype_def c)
  show ?thesis
    by (simp add: d) (simp add: list_or_dict_def DocParser_def dict_get2_def)
qed




section \<open>Responses\<close>

lemma responseClasses_dispatch:
  "responseClasses (dispatch s f) =
     (if tag f = ''rtype'' \<and> truthy (of_opt (arg f))
      then dict_set (responseClasses s) (arg f) (get_body (body f)) else responseClasses s)"
  by (simp add: dispatch_def get_parser_def handler_defs Let_def split: option.splits)

lemma responseMessages_dispatch:
  "responseMessages (dispatch s f) =
     (if tag f = ''return'' \<or> tag f = ''raise'' then responseMessages (parse_return s (arg f) (body f)) else responseMessages s)"
  by (simp add: dispatch_def get_parser_def handler_defs Let_def split: option.splits)

lemma responseClasses_no_rtype:
  "\<forall>f\<in>set fs. \<not> (tag f = ''rtype'' \<and> arg f = c) \<Longrightarrow>
   map_of (responseClasses (parse_fields s fs)) c = map_of (responseClasses s) c"
proof (induction fs arbitrary: s)
  case Nil
  show ?case by (simp add: parse_fields_Nil)
next
  case (Cons f fs)
  have "map_of (responseClasses (dispatch s f)) c = map_of (responseClasses s) c"
    using Cons.prems by (auto simp: responseClasses_dispatch map_of_dict_set)
  with Cons show ?case by (simp add: parse_fields_Cons)
qed

lemma parse_return_descriptor:
  "responseMessages (parse_return s a b) = responseMessages s @
     [[(''code'', of_opt a), (''message'', of_opt (get_body b))] @
      (case map_of (responseClasses s) a of
         Some (Some m) \<Rightarrow> if m \<noteq> [] then [(''responseModel'', PyStr m)] else []
       | _ \<Rightarrow> [])]"
  by (simp add: parse_return_def Let_def dict_set_def split: option.splits)

lemma responseMessages_extend:
  "\<exists>ms. responseMessages (parse_fields s fs) = responseMessages s @ ms"
proof (induction fs arbitrary: s)
  case Nil
  show ?case by (simp add: parse_fields_Nil)
next
  case (Cons f fs)
  obtain ms where a: "responseMessages (parse_fields (dispatch s f) fs) = responseMessages (dispatch s f) @ ms"
    using Cons.IH by blast
  have "\<exists>ms'. responseMessages (dispatch s f) = responseMessages s @ ms'"
    by (simp add: responseMessages_dispatch parse_return_descriptor)
  then obtain ms' where b: "responseMessages (dispatch s f) = responseMessages s @ ms'"
    by blast
  show ?case by (simp add: parse_fields_Cons a b)
qed

text \<open>
  Claim C3, as the code has it. Let a document be processed in order, from any state, and
  let a \<^verbatim>\<open>return\<close> or \<^verbatim>\<open>raise\<close> field come up.
  \<^item> If its argument \<open>c\<close> is not empty and the last \<^verbatim>\<open>rtype\<close> field for \<open>c\<close> before it has
    the body \<open>bt\<close>, the field appends the descriptor with \<^verbatim>\<open>code\<close> \<open>c\<close>, with its own body
    as \<^verbatim>\<open>message\<close>, and with \<^verbatim>\<open>responseModel\<close> the plaintext of \<open>bt\<close> when that is not
    empty; when the body of the \<^verbatim>\<open>rtype\<close> field is absent or empty the descriptor has no
    \<^verbatim>\<open>responseModel\<close> key.
  \<^item> If nothing is recorded for its argument at the start and no \<^verbatim>\<open>rtype\<close> field for it
    comes before, the descriptor has no \<^verbatim>\<open>responseModel\<close> key.
  \<^item> The descriptors appended so far are the first ones of the list after any further
    fields: a later \<^verbatim>\<open>rtype\<close> changes none of them.
\<close>

theorem return_response_model:
  assumes t: "t = ''return'' \<or> t = ''raise''"
  shows
  "(c \<noteq> [] \<and> (\<forall>f\<in>set mid. \<not> (tag f = ''rtype'' \<and> arg f = Some c)) \<longrightarrow>
      responseMessages (parse_fields s
         (pre @ [\<lparr>tag = ''rtype'', arg = Some c, body = bt\<rparr>] @ mid @ [\<lparr>tag = t, arg = Some c, body = b\<rparr>]))
      = responseMessages (parse_fields s (pre @ [\<lparr>tag = ''rtype'', arg = Some c, body = bt\<rparr>] @ mid)) @
        [[(''code'', PyStr c), (''message'', of_opt (get_body b))] @
         (case get_body bt of None \<Rightarrow> [] | Some m \<Rightarrow> if m \<noteq> [] then [(''responseModel'', PyStr m)] else [])]) \<and>
   (map_of (responseClasses s) a = None \<and> (\<forall>f\<in>set fs. \<not> (tag f = ''rtype'' \<and> arg f = a)) \<longrightarrow>
      responseMessages (parse_fields s (fs @ [\<lparr>tag = t, arg = a, body = b\<rparr>]))
      = responseMessages (parse_fields s fs) @ [[(''code'', of_opt a), (''message'', of_opt (get_body b))]]) \<and>
   take (length (responseMessages (parse_fields s fs))) (responseMessages (parse_fields s (fs @ gs)))
      = responseMessages (parse_fields s fs)"
proof (intro conjI impI)
  assume h: "c \<noteq> [] \<and> (\<forall>f\<in>set mid. \<not> (tag f = ''rtype'' \<and> arg f = Some c))"
  let ?r = "\<lparr>tag = ''rtype'', arg = Some c, body = bt\<rparr>"
  let ?s1 = "dispatch (parse_fields s pre) ?r"
  have "map_of (responseClasses ?s1) (Some c) = Some (get_body bt)"
    using h by (simp add: responseClasses_dispatch map_of_dict_set)
  then have rc: "map_of (responseClasses (parse_fields ?s1 mid)) (Some c) = Some (get_body bt)"
    using h responseClasses_no_rtype[of mid "Some c" ?s1] by simp
  have eq: "parse_fields s (pre @ [?r] @ mid) = parse_fields ?s1 mid"
    by (simp add: parse_fields_append parse_fields_Cons parse_fields_Nil)
  have "parse_fields s (pre @ [?r] @ mid @ [\<lparr>tag = t, arg = Some c, body = b\<rparr>])
        = dispatch (parse_fields ?s1 mid) \<lparr>tag = t, arg = Some c, body = b\<rparr>"
    by (simp add: parse_fields_append parse_fields_Cons parse_fields_Nil)
  then show "responseMessages (parse_fields s (pre @ [?r] @ mid @ [\<lparr>tag = t, arg = Some c, body = b\<rparr>]))
      = responseMessages (parse_fields s (pre @ [?r] @ mid)) @
        [[(''code'', PyStr c), (''message'', of_opt (get_body b))] @
         (case get_body bt of None \<Rightarrow> [] | Some m \<Rightarrow> if m \<noteq> [] then [(''responseModel'', PyStr m)] else [])]"
    using t rc by (simp only: eq) (auto simp: responseMessages_dispatch parse_return_descriptor split: option.splits)
next
  assume h: "map_of (responseClasses s) a = None \<and> (\<forall>f\<in>set fs. \<not> (tag f = ''rtype'' \<and> arg f = a))"
  then have "map_of (responseClasses (parse_fields s fs)) a = None"
    using responseClasses_no_rtype[of fs a s] by simp
  then show "responseMessages (parse_fields s (fs @ [\<lparr>tag = t, arg = a, body = b\<rparr>]))
      = responseMessages (parse_fields s fs) @ [[(''code'', of_opt a), (''message'', of_opt (get_body b))]]"
    using t by (auto simp: parse_fields_snoc responseMessages_dispatch parse_return_descriptor)
next
  obtain ms where "responseMessages (parse_fields (parse_fields s fs) gs) = responseMessages (parse_fields s fs) @ ms"
    using responseMessages_extend by blast
  then show "take (length (responseMessages (parse_fields s fs))) (responseMessages (parse_fields s (fs @ gs)))
      = responseMessages (parse_fields s fs)"
    by (simp add: parse_fields_append)
qed


theorem return_response_model_witness:
  "(''return'' = ''return'' \<or> ''return'' = ''raise'') \<and> ''200'' \<noteq> [] \<and>
   arg \<lparr>tag = ''rtype'', arg = Some ''404'', body = Some (para ''Error'')\<rparr> \<noteq> Some ''200'' \<and>
   responseMessages (parse_fields DocParser
      [\<lparr>tag = ''raise'', arg = Some ''404'', body = Some (para ''missing'')\<rparr>,
       \<lparr>tag = ''rtype'', arg = Some ''200'', body = Some (para ''Widget'')\<rparr>,
       \<lparr>tag = ''rtype'', arg = Some ''404'', body = Some (para ''Error'')\<rparr>,
       \<lparr>tag = ''return'', arg = Some ''200'', body = Some (para ''OK'')\<rparr>]) =
     [[(''code'', PyStr ''404''), (''message'', PyStr ''missing'')],
      [(''code'', PyStr ''200''), (''message'', PyStr ''OK''),
       (''responseModel'', PyStr ''Widget'')]] \<and>
   map_of (responseClasses (DocParser :: docparser)) (Some ''200'') = None \<and>
   responseMessages (parse_fields DocParser
      [\<lparr>tag = ''rtype'', arg = Some ''404'', body = Some (para ''Error'')\<rparr>,
       \<lparr>tag = ''return'', arg = Some ''200'', body = Some (para ''OK'')\<rparr>]) =
     [[(''code'', PyStr ''200''), (''message'', PyStr ''OK'')]] \<and>
   take 1 (responseMessages (parse_fields DocParser
      [\<lparr>tag = ''return'', arg = Some ''200'', body = Some (para ''OK'')\<rparr>,
       \<lparr>tag = ''rtype'', arg = Some ''200'', body = Some (para ''Widget'')\<rparr>,
       \<lparr>tag = ''return'', arg = Some ''200'', body = Some (para ''OK'')\<rparr>])) =
     [[(''code'', PyStr ''200''), (''message'', PyStr ''OK'')]]"
proof -
  let ?raise404 = "\<lparr>tag = ''raise'', arg = Some ''404'', body = Some (para ''missing'')\<rparr>"
  let ?rtype404 = "\<lparr>tag = ''rtype'', arg = Some ''404'', body = Some (para ''Error'')\<rparr>"
  let ?rtype200 = "\<lparr>tag = ''rtype'', arg = Some ''200'', body = Some (para ''Widget'')\<rparr>"
  let ?return200 = "\<lparr>tag = ''return'', arg = Some ''200'', body = Some (para ''OK'')\<rparr>"
  have t: "''return'' = ''return'' \<or> ''return'' = ''raise''"
    by simp
  have c: "''200'' \<noteq> []"
    by simp
  have m: "\<forall>f\<in>set [?rtype404]. \<not> (tag f = ''rtype'' \<and> arg f = Some ''200'')"
    by simp
  have g: "get_body (Some (para ''Widget'')) = Some ''Widget''"
      "get_body (Some (para ''OK'')) = Some ''OK''"
    by (simp_all add: body_defs)
  have e: "map_of (responseClasses (DocParser :: docparser)) (Some ''200'') = None"
    by (simp add: DocParser_def)
  have p1: "responseMessages (parse_fields DocParser [?raise404, ?rtype200, ?rtype404]) =
      [[(''code'', PyStr ''404''), (''message'', PyStr ''missing'')]]"
    by (simp add: parse_fields_Nil parse_fields_Cons dispatch_def get_parser_def handler_defs
        dict_defs Let_def body_defs DocParser_def)
  have p2: "responseMessages (parse_fields DocParser [?rtype404]) = []"
    by (simp add: parse_fields_Nil parse_fields_Cons dispatch_def get_parser_def handler_defs
        dict_defs Let_def body_defs DocParser_def)
  have p3: "responseMessages (parse_fields DocParser [?return200]) =
      [[(''code'', PyStr ''200''), (''message'', PyStr ''OK'')]]"
    by (simp add: parse_fields_Nil parse_fields_Cons dispatch_def get_parser_def handler_defs
        dict_defs Let_def body_defs DocParser_def)
  note A = return_response_model [OF t, of "''200''" "[?rtype404]" DocParser "[?raise404]"
      "Some (para ''Widget'')" "Some (para ''OK'')" "Some ''200''" "[?rtype404]" "[]"]
  note B = return_response_model [OF t, of "''200''" "[?rtype404]" DocParser "[?raise404]"
      "Some (para ''Widget'')" "Some (para ''OK'')" "Some ''200''" "[?return200]"
      "[?rtype200, ?return200]"]
  have 1: "responseMessages (parse_fields DocParser [?raise404, ?rtype200, ?rtype404, ?return200]) =
     [[(''code'', PyStr ''404''), (''message'', PyStr ''missing'')],
      [(''code'', PyStr ''200''), (''message'', PyStr ''OK''),
       (''responseModel'', PyStr ''Widget'')]]"
    using conjunct1 [OF A, rule_format, OF conjI [OF c m]] by (simp add: p1 g)
  have 2: "responseMessages (parse_fields DocParser [?rtype404, ?return200]) =
     [[(''code'', PyStr ''200''), (''message'', PyStr ''OK'')]]"
    using conjunct1 [OF conjunct2 [OF A], rule_format, OF conjI [OF e m]] by (simp add: p2 g)
  have 3: "take 1 (responseMessages (parse_fields DocParser [?return200, ?rtype200, ?return200])) =
     [[(''code'', PyStr ''200''), (''message'', PyStr ''OK'')]]"
    using conjunct2 [OF conjunct2 [OF B]] by (simp add: p3)
  have m': "arg ?rtype404 \<noteq> Some ''200''"
    by simp
  show ?thesis
    using t c m' e 1 2 3 by blast
qed

text \<open>
  The claim as written gives the descriptor the recorded body as \<^verbatim>\<open>responseModel\<close>
  whenever an \<^verbatim>\<open>rtype\<close> field for the code came before. For an \<^verbatim>\<open>rtype\<close> field with an
  empty body the empty string is recorded and the descriptor has no such key.
\<close>

theorem rtype_empty_body_counterexample:
  "map_of (responseClasses (parse_fields DocParser
      [\<lparr>tag = ''rtype'', arg = Some ''200'', body = Some empty_body\<rparr>,
       \<lparr>tag = ''return'', arg = Some ''200'', body = Some (para ''OK'')\<rparr>]))
     (Some ''200'') = Some (Some []) \<and>
   responseMessages (parse_fields DocParser
      [\<lparr>tag = ''rtype'', arg = Some ''200'', body = Some empty_body\<rparr>,
       \<lparr>tag = ''return'', arg = Some ''200'', body = Some (para ''OK'')\<rparr>]) =
     [[(''code'', PyStr ''200''), (''message'', PyStr ''OK'')]] \<and>
   map_of (last (responseMessages (parse_fields DocParser
      [\<lparr>tag = ''rtype'', arg = Some ''200'', body = Some empty_body\<rparr>,
       \<lparr>tag = ''return'', arg = Some ''200'', body = Some (para ''OK'')\<rparr>])))
     ''responseModel'' \<noteq> Some (PyStr [])"
  by (simp add: parse_fields_Nil parse_fields_Cons dispatch_def get_parser_def handler_defs
      dict_defs Let_def body_defs DocParser_def)

section \<open>What the handlers leave alone\<close>

lemma more_dispatch: "docparser.more (dispatch s f) = docparser.more s"
  by (simp add: dispatch_def get_parser_def handler_defs Let_def split: option.splits)

lemma more_parse_fields: "docparser.more (parse_fields s fs) = docparser.more s"
  by (induction fs arbitrary: s) (simp_all add: parse_fields_Nil parse_fields_Cons more_dispatch)

lemma more_parse_docstring: "docparser.more (parse_docstring s d) = docparser.more s"
  by (simp add: parse_docstring_def more_parse_fields split: option.splits)


lemma cls_parse_docstring: "cls (parse_docstring s d) = cls s"
  using more_parse_docstring[of s d]
  by (cases s, cases "parse_docstring s d") (simp)

lemma func_parse_docstring: "func (parse_docstring s d) = func s"
  using more_parse_docstring[of s d]
  by (cases s, cases "parse_docstring s d") (simp)

section \<open>Model decoration\<close>






lemma cls_foldl: "(\<And>s a. cls (f s a) = cls s) \<Longrightarrow> cls (foldl f s xs) = cls s"
  by (induction xs arbitrary: s) simp_all

lemma cls_model_parse_args: "model_parse_args s r = Inr s' \<Longrightarrow> cls s' = cls s"
  by (cases r) (auto simp: model_parse_args_def Let_def cls_foldl split_def split: if_splits)

lemma model_call_built: "cls s = Some C \<Longrightarrow> model_call s m a = (Inr C, s, m)"
  by (simp add: model_call_def)

lemma model_call_first:
  assumes "cls self = None" and "model_call self models (C # rest) = (Inr v, s1, m1)"
  shows "v = C \<and> m1 = models @ [s1] \<and> cls s1 = Some C"
proof -
  let ?s0 = "self\<lparr>model_id := Some (cls_name C), cls := Some C\<rparr>"
  let ?r = "case cls_init C of None \<Rightarrow> Inr ?s0 | Some r \<Rightarrow> model_parse_args ?s0 r"
  show ?thesis
  proof (cases ?r)
    case (Inl e)
    then have "model_call self models (C # rest) = (Inl e, ?s0, models)"
      using assms(1) by (simp add: model_call_def parse_model_def)
    then show ?thesis using assms(2) by simp
  next
    case (Inr s2)
    then have m: "model_call self models (C # rest) =
        (Inr C, parse_docstring s2 (cls_doc C), models @ [parse_docstring s2 (cls_doc C)])"
      using assms(1) by (simp add: model_call_def parse_model_def Let_def)
    have "cls s2 = Some C"
    proof (cases "cls_init C")
      case None
      then show ?thesis using Inr by auto
    next
      case (Some r)
      then show ?thesis using Inr cls_model_parse_args[of ?s0 r s2] by simp
    qed
    then show ?thesis using m assms(2) by (simp add: cls_parse_docstring)
  qed
qed

lemma model_calls_built:
  "cls s = Some C \<Longrightarrow> foldl (\<lambda>(s, m) a. snd (model_call s m a)) (s, m) calls = (s, m)"
  by (induction calls) (simp_all add: model_call_built)


lemma widget_decorated:
  "model_call (model_init [] []) ms [widget_class] = (Inr widget_class, widget_model, ms @ [widget_model])"
  by (simp add: model_call_def parse_model_def model_parse_args_def model_init_def widget_class_def
      widget_model_def Let_def parse_docstring_def parse_fields_def dispatch_def get_parser_def
      handler_defs dict_defs body_defs epytext_defs)





lemma this_decorated:
  "model_call (model_init [] []) ms [this_class] = (Inl ValueError, this_model, ms)"
  by (simp add: model_call_def parse_model_def model_parse_args_def model_init_def
      this_class_def this_model_def)




lemma cls_after_call:
  "\<exists>c. cls (fst (snd (model_call self models (C # rest)))) = Some c"
proof (cases "cls self")
  case (Some c)
  then show ?thesis by (simp add: model_call_def)
next
  case None
  let ?s0 = "self\<lparr>model_id := Some (cls_name C), cls := Some C\<rparr>"
  let ?r = "case cls_init C of None \<Rightarrow> Inr ?s0 | Some r \<Rightarrow> model_parse_args ?s0 r"
  show ?thesis
  proof (cases ?r)
    case (Inl e)
    then have "model_call self models (C # rest) = (Inl e, ?s0, models)"
      using None by (simp add: model_call_def parse_model_def)
    then show ?thesis by simp
  next
    case (Inr s2)
    then have "model_call self models (C # rest) =
        (Inr C, parse_docstring s2 (cls_doc C), models @ [parse_docstring s2 (cls_doc C)])"
      using None by (simp add: model_call_def parse_model_def Let_def)
    then obtain v s1 m1 where "model_call self models (C # rest) = (Inr v, s1, m1)"
      by blast
    from model_call_first [OF None this] this show ?thesis by simp
  qed
qed

lemma model_call_registry:
  assumes "model_call self models (C # rest) = (r, s1, m1)"
  shows "(m1 = models \<or> m1 = models @ [s1]) \<and> (\<forall>e. r = Inl e \<longrightarrow> m1 = models)"
proof (cases "cls self")
  case (Some c)
  then show ?thesis using assms by (simp add: model_call_def)
next
  case None
  let ?s0 = "self\<lparr>model_id := Some (cls_name C), cls := Some C\<rparr>"
  let ?r = "case cls_init C of None \<Rightarrow> Inr ?s0 | Some r \<Rightarrow> model_parse_args ?s0 r"
  show ?thesis
  proof (cases ?r)
    case (Inl e)
    then have "model_call self models (C # rest) = (Inl e, ?s0, models)"
      using None by (simp add: model_call_def parse_model_def)
    then show ?thesis using assms by simp
  next
    case (Inr s2)
    then have "model_call self models (C # rest) =
        (Inr C, parse_docstring s2 (cls_doc C), models @ [parse_docstring s2 (cls_doc C)])"
      using None by (simp add: model_call_def parse_model_def Let_def)
    then show ?thesis using assms by auto
  qed
qed

text \<open>
  Claim C4, as the code has it. Whatever the first call of a decorator object on a class
  does, every later call of the same object, one or many, with whatever arguments, appends
  nothing to the registry and leaves the object as it is. The first call appends at most
  one descriptor, the object itself: exactly one when the object has not been called
  before and the call returns, and none when the call raises.
\<close>

theorem model_registered_at_most_once:
  assumes "model_call self models (C # rest) = (r, s1, m1)"
  shows "foldl (\<lambda>(s, m) a. snd (model_call s m a)) (s1, m1) calls = (s1, m1) \<and>
         snd (snd (model_call s1 m1 a)) = m1 \<and>
         (m1 = models \<or> m1 = models @ [s1]) \<and>
         (cls self = None \<and> r = Inr v \<longrightarrow>
            m1 = models @ [s1] \<and> model_call s1 m1 a = (Inr C, s1, m1)) \<and>
         (r = Inl e \<longrightarrow> m1 = models)"
proof -
  obtain c where c: "cls s1 = Some c"
    using cls_after_call [of self models C rest] assms by auto
  have 1: "foldl (\<lambda>(s, m) a. snd (model_call s m a)) (s1, m1) calls = (s1, m1)"
    using c by (rule model_calls_built)
  have 2: "snd (snd (model_call s1 m1 a)) = m1"
    using c by (simp add: model_call_built)
  have 3: "m1 = models \<or> m1 = models @ [s1]" and 5: "r = Inl e \<longrightarrow> m1 = models"
    using model_call_registry [OF assms] by blast+
  have 4: "cls self = None \<and> r = Inr v \<longrightarrow>
            m1 = models @ [s1] \<and> model_call s1 m1 a = (Inr C, s1, m1)"
  proof
    assume h: "cls self = None \<and> r = Inr v"
    then have "model_call self models (C # rest) = (Inr v, s1, m1)"
      using assms by simp
    from model_call_first [OF conjunct1 [OF h] this]
    show "m1 = models @ [s1] \<and> model_call s1 m1 a = (Inr C, s1, m1)"
      by (simp add: model_call_built)
  qed
  show ?thesis
    using 1 2 3 4 5 by blast
qed

theorem model_registered_at_most_once_witness:
  "model_call (model_init [] []) [] [widget_class] = (Inr widget_class, widget_model, [widget_model]) \<and>
   cls (model_init [] []) = None \<and>
   foldl (\<lambda>(s, m) a. snd (model_call s m a)) (widget_model, [widget_model])
     [[widget_class], [widget_class]] = (widget_model, [widget_model]) \<and>
   model_call widget_model [widget_model] [widget_class] =
     (Inr widget_class, widget_model, [widget_model]) \<and>
   model_call (model_init [] []) [] [this_class] = (Inl ValueError, this_model, []) \<and>
   snd (snd (model_call this_model [] [this_class])) = []"
proof -
  have 1: "model_call (model_init [] []) [] [widget_class] =
      (Inr widget_class, widget_model, [widget_model])"
    using widget_decorated [of "[]"] by simp
  have 2: "model_call (model_init [] []) [] [this_class] = (Inl ValueError, this_model, [])"
    by (rule this_decorated)
  have 3: "cls (model_init [] []) = None"
    by (simp add: model_init_def)
  note A = model_registered_at_most_once [OF 1, of "[[widget_class], [widget_class]]"
      "[widget_class]" widget_class ValueError]
  note B = model_registered_at_most_once [OF 2, of "[]" "[this_class]" this_class ValueError]
  show ?thesis
    using 1 2 3 A B by simp
qed

text \<open>
  The claim as written has exactly one descriptor appended for every class. For a class
  whose constructor names its receiver \<^verbatim>\<open>this\<close> the first call raises after \<^verbatim>\<open>self.cls\<close> is
  set, the second call returns the class, and the registry holds no descriptor for it.
\<close>

theorem model_failed_first_call_counterexample:
  "model_call (model_init [] []) [] [this_class] = (Inl ValueError, this_model, []) \<and>
   model_call this_model [] [this_class] = (Inr this_class, this_model, [])"
  by (simp add: this_decorated) (simp add: model_call_def this_model_def)

text \<open>
  Claim C9. When a fresh decorator object is called on a class whose constructor cannot be
  introspected (\<^verbatim>\<open>inspect.getargspec\<close> raises, or no parameter is called \<^verbatim>\<open>self\<close>, so that
  \<^verbatim>\<open>remove\<close> raises \<^verbatim>\<open>ValueError\<close>), the call raises that exception and the registry is
  what it was before the call.
\<close>

theorem model_introspection_failure:
  assumes "cls self = None" and "cls_init C = Some r"
    and "case r of Inl e \<Rightarrow> True | Inr spec \<Rightarrow> ''self'' \<notin> set (args spec)"
  shows "fst (model_call self models (C # rest)) =
           Inl (case r of Inl e \<Rightarrow> e | Inr spec \<Rightarrow> ValueError) \<and>
         snd (snd (model_call self models (C # rest))) = models"
  using assms
  by (cases r) (simp_all add: model_call_def parse_model_def model_parse_args_def Let_def)

theorem model_introspection_failure_witness:
  "cls (model_init [] []) = None \<and>
   cls_init this_class = Some (Inr \<lparr>args = [''this'', ''a''], defaults = None\<rparr>) \<and>
   ''self'' \<notin> set (args \<lparr>args = [''this'', ''a''], defaults = None\<rparr>) \<and>
   fst (model_call (model_init [] []) [widget_model] [this_class]) = Inl ValueError \<and>
   snd (snd (model_call (model_init [] []) [widget_model] [this_class])) = [widget_model]"
proof -
  have 1: "cls (model_init [] []) = None"
    by (simp add: model_init_def)
  have 2: "cls_init this_class = Some (Inr \<lparr>args = [''this'', ''a''], defaults = None\<rparr>)"
    by (simp add: this_class_def)
  have 3: "case (Inr \<lparr>args = [''this'', ''a''], defaults = None\<rparr> :: pyerror + argspec) of
             Inl e \<Rightarrow> True | Inr spec \<Rightarrow> ''self'' \<notin> set (args spec)"
    by simp
  show ?thesis
    using 1 2 model_introspection_failure [OF 1 2 3, of "[widget_model]" "[]"] by simp
qed

section \<open>Operation decoration\<close>

lemma func_foldl: "(\<And>s a. func (f s a) = func s) \<Longrightarrow> func (foldl f s xs) = func s"
  by (induction xs arbitrary: s) simp_all

lemma func_operation_parse_args: "operation_parse_args s r = Inr s' \<Longrightarrow> func s' = func s"
  by (cases r) (auto simp: operation_parse_args_def Let_def func_foldl)

lemma parse_operation_func: "parse_operation w s f = (None, s') \<Longrightarrow> func s' = f"
  by (auto simp: parse_operation_def Let_def func_parse_docstring
      dest!: func_operation_parse_args split: option.splits sum.splits)

lemma operation_call_first:
  assumes "\<not> truthy (func (ops w i))"
    and "operation_call w i (f # rest) kw = Some (Inr v, w1)"
  shows "\<exists>fo s. get_function w f = Some fo \<and> parse_operation w (ops w i) f = (None, s) \<and>
     v = PyRef (length (funs w)) \<and>
     w1 = w\<lparr>funs := funs w @ [wrapper i fo], ops := (ops w)(i := s)\<rparr> \<and> func s = f"
  using assms
  by (auto simp: operation_call_def parse_operation_func split: prod.splits option.splits)

lemma get_function_new:
  "get_function (w\<lparr>funs := funs w @ [x], ops := o'\<rparr>) (PyRef (length (funs w))) = Some x"
  by (simp add: get_function_def)

lemma get_function_old:
  "get_function w f = Some fo \<Longrightarrow> get_function (w\<lparr>funs := funs w @ [x], ops := o'\<rparr>) f = Some fo"
  by (auto simp: get_function_def nth_append split: pyval.splits if_splits)

lemma ping_parsed: "parse_operation world0 (operation_init PyNone []) (PyRef 0) = (None, ping_operation)"
  by (simp add: parse_operation_def get_function_def world0_def ping_def ping_seeds
      parse_docstring_def parse_fields_def dispatch_def get_parser_def parse_param_def
      ping_seeded_def ping_operation_def dict_defs body_defs Let_def)

lemma world0_ops: "ops world0 i = operation_init PyNone []"
  by (simp add: world0_def)

lemma ping_decorated: "operation_call world0 0 [PyRef 0] [] = Some (Inr (PyRef 1), world1)"
proof -
  have nt: "\<not> truthy (func (operation_init PyNone []))"
    by (simp add: operation_init_def)
  have gf: "get_function world0 (PyRef 0) = Some ping"
    by (simp add: get_function_def world0_def)
  have len: "length (funs world0) = 1"
    by (simp add: world0_def)
  show ?thesis
    by (simp add: operation_call_def world0_ops nt ping_parsed gf len world1_def)
qed

lemma world0_unbuilt: "\<not> truthy (func (ops world0 0))"
  by (simp add: world0_def operation_init_def)

text \<open>
  Claim C5. Let a decorator object that holds no function yet decorate \<open>f\<close> and return \<open>v\<close>.
  Calling \<open>v\<close> with any arguments gives what calling \<open>f\<close> with these arguments gives, the
  value returned or the exception raised: for a function of the program, the result of its
  body on exactly these arguments. The attribute \<^verbatim>\<open>rest_api\<close> of \<open>v\<close> is the decorator object,
  whose state is the descriptor that \<^verbatim>\<open>_parse_operation\<close> built; reading it calls nothing.
\<close>

theorem wrapper_transparent:
  assumes "\<not> truthy (func (ops w i))"
    and "operation_call w i (f # rest) kw = Some (Inr v, w1)"
  shows "call_value w1 v a kw' = call_value w1 f a kw' \<and>
         (\<forall>g. map_option fn_code (get_function w f) = Some (Body g) \<longrightarrow>
              call_value w1 v a kw' = Some (g a kw')) \<and>
         map_option rest_api (get_function w1 v) = Some (Some i) \<and>
         ops w1 i = snd (parse_operation w (ops w i) f)"
proof -
  obtain fo s where h: "get_function w f = Some fo" "parse_operation w (ops w i) f = (None, s)"
     "v = PyRef (length (funs w))"
     "w1 = w\<lparr>funs := funs w @ [wrapper i fo], ops := (ops w)(i := s)\<rparr>" "func s = f"
    using operation_call_first [OF assms] by blast
  have gv: "get_function w1 v = Some (wrapper i fo)"
    using h by (simp add: get_function_new)
  have gf: "get_function w1 f = Some fo"
    using h by (simp add: get_function_old)
  have o1: "ops w1 i = s"
    using h(4) by simp
  have 1: "call_value w1 v a kw' = call_value w1 f a kw'"
    by (subst call_value.simps) (simp add: gv wrapper_def o1 h(5))
  have 2: "\<forall>g. map_option fn_code (get_function w f) = Some (Body g) \<longrightarrow>
             call_value w1 v a kw' = Some (g a kw')"
    unfolding 1 by (subst call_value.simps) (simp add: gf h(1))
  show ?thesis
    using 1 2 gv o1 h(2) by (simp add: wrapper_def)
qed

theorem wrapper_transparent_witness:
  "\<not> truthy (func (ops world0 0)) \<and>
   operation_call world0 0 [PyRef 0] [] = Some (Inr (PyRef 1), world1) \<and>
   call_value world1 (PyRef 1) [PyInt 7] [] = Some (Inr (PyStr ''pong'')) \<and>
   call_value world1 (PyRef 0) [PyInt 7] [] = Some (Inr (PyStr ''pong'')) \<and>
   map_option rest_api (get_function world1 (PyRef 1)) = Some (Some 0) \<and>
   ops world1 0 = ping_operation"
proof -
  note T = wrapper_transparent [OF world0_unbuilt ping_decorated, of "[PyInt 7]" "[]"]
  have g: "map_option fn_code (get_function world0 (PyRef 0)) =
      Some (Body (\<lambda>a kw. if length a = 1 \<and> kw = [] then Inr (PyStr ''pong'') else Inl TypeError))"
    by (simp add: get_function_def world0_def ping_def)
  have 1: "call_value world1 (PyRef 1) [PyInt 7] [] = Some (Inr (PyStr ''pong''))"
    using conjunct1 [OF conjunct2 [OF T], rule_format, OF g] by simp
  have 2: "call_value world1 (PyRef 0) [PyInt 7] [] = Some (Inr (PyStr ''pong''))"
    using T 1 by metis
  have 3: "map_option rest_api (get_function world1 (PyRef 1)) = Some (Some 0)"
    using T by simp
  have 4: "ops world1 0 = ping_operation"
    using T by (simp add: world0_ops ping_parsed)
  show ?thesis
    using world0_unbuilt ping_decorated 1 2 3 4 by simp
qed

text \<open>
  Claim C1, as the code has it. Let a decorator object that holds no function yet decorate
  \<open>f\<close>. Every later call of the same object, with whatever arguments, is forwarded to \<open>f\<close>:
  it returns what \<open>f\<close> returns for these arguments and leaves the world as it is, so that
  the descriptor is built once, under the guard \<^verbatim>\<open>if self.func\<close>, and no second closure is
  made. The call does not return the closure of the first decoration.
\<close>

theorem operation_second_call:
  assumes "\<not> truthy (func (ops w i))"
    and "operation_call w i (f # rest) kw = Some (Inr v, w1)"
  shows "operation_call w1 i a kw' = map_option (\<lambda>r. (r, w1)) (call_value w1 f a kw') \<and>
         (\<forall>g. map_option fn_code (get_function w f) = Some (Body g) \<longrightarrow>
              operation_call w1 i a kw' = Some (g a kw', w1))"
proof -
  obtain fo s where h: "get_function w f = Some fo" "parse_operation w (ops w i) f = (None, s)"
     "v = PyRef (length (funs w))"
     "w1 = w\<lparr>funs := funs w @ [wrapper i fo], ops := (ops w)(i := s)\<rparr>" "func s = f"
    using operation_call_first [OF assms] by blast
  have t: "truthy f"
    using h(1) by (cases f) (simp_all add: get_function_def)
  have gf: "get_function w1 f = Some fo"
    using h by (simp add: get_function_old)
  have o1: "ops w1 i = s"
    using h(4) by simp
  have 1: "operation_call w1 i a kw' = map_option (\<lambda>r. (r, w1)) (call_value w1 f a kw')"
    using t by (simp add: operation_call_def o1 h(5))
  have 2: "\<forall>g. map_option fn_code (get_function w f) = Some (Body g) \<longrightarrow>
             call_value w1 f a kw' = Some (g a kw')"
    by (subst call_value.simps) (simp add: gf h(1))
  show ?thesis
    using 1 2 by simp
qed

theorem operation_second_call_witness:
  "\<not> truthy (func (ops world0 0)) \<and>
   operation_call world0 0 [PyRef 0] [] = Some (Inr (PyRef 1), world1) \<and>
   operation_call world1 0 [PyRef 0] [] = Some (Inr (PyStr ''pong''), world1) \<and>
   operation_call world1 0 [] [] = Some (Inl TypeError, world1)"
proof -
  have g: "map_option fn_code (get_function world0 (PyRef 0)) =
      Some (Body (\<lambda>a kw. if length a = 1 \<and> kw = [] then Inr (PyStr ''pong'') else Inl TypeError))"
    by (simp add: get_function_def world0_def ping_def)
  have 1: "operation_call world1 0 [PyRef 0] [] = Some (Inr (PyStr ''pong''), world1)"
    using conjunct2 [OF operation_second_call [OF world0_unbuilt ping_decorated, of "[PyRef 0]" "[]"],
        rule_format, OF g]
    by simp
  have 2: "operation_call world1 0 [] [] = Some (Inl TypeError, world1)"
    using conjunct2 [OF operation_second_call [OF world0_unbuilt ping_decorated, of "[]" "[]"],
        rule_format, OF g]
    by simp
  show ?thesis
    using world0_unbuilt ping_decorated 1 2 by simp
qed

text \<open>
  The claim as written has the second application return the closure of the first. For
  \<^verbatim>\<open>ping\<close> the first application returns the closure at address 1, and applying the same
  decorator object to that closure calls \<^verbatim>\<open>ping\<close> on it and returns \<^verbatim>\<open>'pong'\<close>.
\<close>

theorem redecoration_counterexample:
  "operation_call world0 0 [PyRef 0] [] = Some (Inr (PyRef 1), world1) \<and>
   operation_call world1 0 [PyRef 1] [] = Some (Inr (PyStr ''pong''), world1) \<and>
   operation_call world1 0 [PyRef 1] [] \<noteq> Some (Inr (PyRef 1), world1)"
proof -
  have t: "truthy (func (ops world1 0))"
    by (simp add: world1_def ping_operation_def)
  have f: "func (ops world1 0) = PyRef 0"
    by (simp add: world1_def ping_operation_def)
  have g: "get_function world1 (PyRef 0) = Some ping"
    by (simp add: get_function_def world1_def world0_def)
  have c: "call_value world1 (PyRef 0) [PyRef 1] [] = Some (Inr (PyStr ''pong''))"
    apply (subst call_value.simps)
    apply (simp only: g option.case)
    apply (simp add: ping_def)
    done
  have "operation_call world1 0 [PyRef 1] [] = Some (Inr (PyStr ''pong''), world1)"
    by (simp add: operation_call_def t f c del: One_nat_def)
  then show ?thesis
    using ping_decorated by simp
qed


end
